theory Spec2Isabelle
  imports Complex_Main
begin

section \<open>Python values shared by both scripts\<close>

text \<open>
  Exceptions are values. \<open>ValueError\<close> is what \<^verbatim>\<open>float\<close>, \<^verbatim>\<open>np.linspace\<close>,
  \<^verbatim>\<open>reshape\<close> and \<^verbatim>\<open>rotation_matrix\<close> raise, \<open>IndexError\<close> and \<open>KeyError\<close> are
  what list indexing and dictionary lookup raise, \<open>Cv2Error\<close> stands for the
  \<^verbatim>\<open>cv2.error\<close> of a failed OpenCV assertion, and \<open>FileNotFoundError\<close>,
  \<open>PermissionError\<close> and \<open>UnicodeDecodeError\<close> are what opening and reading a text
  file raise.
\<close>

datatype py_error =
  ValueError | IndexError | KeyError | Cv2Error
  | FileNotFoundError | PermissionError | UnicodeDecodeError

definition bind_err :: "'e + 'a \<Rightarrow> ('a \<Rightarrow> 'e + 'b) \<Rightarrow> 'e + 'b" where
  "bind_err m f = (case m of Inl e \<Rightarrow> Inl e | Inr v \<Rightarrow> f v)"

definition py_getitem :: "'a list \<Rightarrow> nat \<Rightarrow> py_error + 'a" where
  "py_getitem xs i = (if i < length xs then Inr (xs ! i) else Inl IndexError)"

section \<open>export\_camera\_trajectory.py\<close>

subsection \<open>String operations of the Python library\<close>

text \<open>
  \<^verbatim>\<open>str.isspace\<close> on the code points below 256: TAB..CR, FS..US, space, NEL and
  the no-break space. A \<open>char\<close> stands for one code point of the decoded line.
\<close>

definition isspace :: "char \<Rightarrow> bool" where
  "isspace c = (let n = (of_char c :: nat) in
     (9 \<le> n \<and> n \<le> 13) \<or> (28 \<le> n \<and> n \<le> 32) \<or> n = 133 \<or> n = 160)"

definition strip :: "string \<Rightarrow> string" where
  "strip s = rev (dropWhile isspace (rev (dropWhile isspace s)))"

text \<open>\<^verbatim>\<open>str.split()\<close> without arguments: maximal runs of non-whitespace characters.\<close>

fun split_aux :: "string \<Rightarrow> string \<Rightarrow> string list" where
  "split_aux cur [] = (if cur = [] then [] else [cur])"
| "split_aux cur (c # cs) =
     (if isspace c then (if cur = [] then split_aux [] cs else cur # split_aux [] cs)
      else split_aux (cur @ [c]) cs)"

definition split :: "string \<Rightarrow> string list" where
  "split s = split_aux [] s"

definition startswith :: "string \<Rightarrow> string \<Rightarrow> bool" where
  "startswith s p = (take (length p) s = p)"

subsection \<open>parse\_cameras\<close>

text \<open>The dictionary appended to \<^verbatim>\<open>cameras_data\<close>: thirteen keys, one value each.\<close>

record 'f camera =
  R00 :: 'f
  R01 :: 'f
  R02 :: 'f
  R10 :: 'f
  R11 :: 'f
  R12 :: 'f
  R20 :: 'f
  R21 :: 'f
  R22 :: 'f
  Tx :: 'f
  Ty :: 'f
  Tz :: 'f
  FocalLength :: 'f

text \<open>
  \<^verbatim>\<open>list(map(float, ts))\<close>. Python's \<^verbatim>\<open>float\<close> is a parameter \<open>pf\<close> of the model:
  \<open>None\<close> is the \<^verbatim>\<open>ValueError\<close> it raises on a string, the first failing token
  aborts the whole conversion.
\<close>

fun map_float :: "(string \<Rightarrow> 'f option) \<Rightarrow> string list \<Rightarrow> py_error + 'f list" where
  "map_float pf [] = Inr []"
| "map_float pf (t # ts) =
     (case pf t of
        None \<Rightarrow> Inl ValueError
      | Some v \<Rightarrow> bind_err (map_float pf ts) (\<lambda>vs. Inr (v # vs)))"

definition py_float :: "(string \<Rightarrow> 'f option) \<Rightarrow> string \<Rightarrow> py_error + 'f" where
  "py_float pf t = (case pf t of None \<Rightarrow> Inl ValueError | Some v \<Rightarrow> Inr v)"

text \<open>The body of the \<^verbatim>\<open>try\<close> block (lines 23 to 33), every subscript checked.\<close>

definition try_body :: "(string \<Rightarrow> 'f option) \<Rightarrow> string list \<Rightarrow> py_error + 'f camera" where
  "try_body pf parts =
     bind_err (map_float pf (take 9 parts)) (\<lambda>rotation_matrix.
     bind_err (map_float pf (take 3 (drop 9 parts))) (\<lambda>translation_vector.
     bind_err (py_getitem parts 12) (\<lambda>p12.
     bind_err (py_float pf p12) (\<lambda>focal_length.
     bind_err (py_getitem rotation_matrix 0) (\<lambda>r0.
     bind_err (py_getitem rotation_matrix 1) (\<lambda>r1.
     bind_err (py_getitem rotation_matrix 2) (\<lambda>r2.
     bind_err (py_getitem rotation_matrix 3) (\<lambda>r3.
     bind_err (py_getitem rotation_matrix 4) (\<lambda>r4.
     bind_err (py_getitem rotation_matrix 5) (\<lambda>r5.
     bind_err (py_getitem rotation_matrix 6) (\<lambda>r6.
     bind_err (py_getitem rotation_matrix 7) (\<lambda>r7.
     bind_err (py_getitem rotation_matrix 8) (\<lambda>r8.
     bind_err (py_getitem translation_vector 0) (\<lambda>t0.
     bind_err (py_getitem translation_vector 1) (\<lambda>t1.
     bind_err (py_getitem translation_vector 2) (\<lambda>t2.
       Inr \<lparr>R00 = r0, R01 = r1, R02 = r2, R10 = r3, R11 = r4, R12 = r5,
            R20 = r6, R21 = r7, R22 = r8, Tx = t0, Ty = t1, Tz = t2,
            FocalLength = focal_length\<rparr>))))))))))))))))"

text \<open>
  The loop over \<^verbatim>\<open>lines\<close> with the list \<^verbatim>\<open>cameras_data\<close> as its state. The
  \<^verbatim>\<open>except\<close> clause catches \<open>ValueError\<close> only: any other exception of the body
  leaves the function.
\<close>

fun parse_lines ::
  "(string \<Rightarrow> 'f option) \<Rightarrow> string list \<Rightarrow> 'f camera list \<Rightarrow> py_error + 'f camera list" where
  "parse_lines pf [] cameras_data = Inr cameras_data"
| "parse_lines pf (line # lines) cameras_data =
     (if startswith line ''#'' \<or> strip line = [] then parse_lines pf lines cameras_data
      else
        let parts = split (strip line) in
        if length parts \<noteq> 13 then parse_lines pf lines cameras_data
        else
          (case try_body pf parts of
             Inr cam \<Rightarrow> parse_lines pf lines (cameras_data @ [cam])
           | Inl ValueError \<Rightarrow> parse_lines pf lines cameras_data
           | Inl e \<Rightarrow> Inl e))"

text \<open>
  Lines 6 and 7 open the file and read its lines, outside the \<^verbatim>\<open>try\<close> block. The
  file system is the parameter \<open>read_lines\<close>: for a path it gives the exception that
  \<^verbatim>\<open>open\<close> or \<^verbatim>\<open>file.readlines()\<close> raises, or the decoded lines.
\<close>

definition parse_cameras ::
  "(string \<Rightarrow> 'f option) \<Rightarrow> (string \<Rightarrow> py_error + string list) \<Rightarrow> string
     \<Rightarrow> py_error + 'f camera list" where
  "parse_cameras pf read_lines file_path =
     bind_err (read_lines file_path) (\<lambda>lines. parse_lines pf lines [])"

text \<open>A directory that holds one readable text file and nothing else.\<close>

definition one_file :: "string \<Rightarrow> string list \<Rightarrow> string \<Rightarrow> py_error + string list" where
  "one_file name lines file_path = (if file_path = name then Inr lines else Inl FileNotFoundError)"

subsection \<open>The record a line stands for, in the words of the specification\<close>

definition camera_of_values :: "'f list \<Rightarrow> 'f camera" where
  "camera_of_values vs =
     \<lparr>R00 = vs ! 0, R01 = vs ! 1, R02 = vs ! 2, R10 = vs ! 3, R11 = vs ! 4, R12 = vs ! 5,
      R20 = vs ! 6, R21 = vs ! 7, R22 = vs ! 8, Tx = vs ! 9, Ty = vs ! 10, Tz = vs ! 11,
      FocalLength = vs ! 12\<rparr>"

definition spec_line_record :: "(string \<Rightarrow> 'f option) \<Rightarrow> string \<Rightarrow> 'f camera option" where
  "spec_line_record pf line =
     (if startswith line ''#'' then None
      else if strip line = [] then None
      else if length (split (strip line)) \<noteq> 13 then None
      else map_option camera_of_values (those (map pf (split (strip line)))))"

section \<open>perspective.py\<close>

subsection \<open>Arrays and the NumPy operations used\<close>

text \<open>
  A two-dimensional float array is the list of its rows, an image is the list of its
  rows of pixels, a pixel the list of its channel samples. Floating-point numbers are
  modelled as real numbers: rounding, NaN and signed zeros are outside the model. The
  conversion of an interpolated sample to the sample type of the image is a parameter
  of the resampler.
\<close>

type_synonym ndarray2 = "real list list"
type_synonym pixel = "real list"
type_synonym image = "pixel list list"

text \<open>
  \<^verbatim>\<open>a.shape[1]\<close> for an array given by its rows; an array without rows has no
  columns either.
\<close>

definition ncols :: "'a list list \<Rightarrow> nat" where
  "ncols a = (case a of [] \<Rightarrow> 0 | r # _ \<Rightarrow> length r)"

definition deg2rad :: "real \<Rightarrow> real" where
  "deg2rad d = d * (pi / 180)"

text \<open>
  \<^verbatim>\<open>np.linspace(start, stop, num)\<close> with the default \<^verbatim>\<open>endpoint=True\<close>: a negative
  \<open>num\<close> raises, \<open>num = 1\<close> yields the start alone, otherwise the step is
  \<open>(stop - start) / (num - 1)\<close>.
\<close>

definition linspace :: "real \<Rightarrow> real \<Rightarrow> int \<Rightarrow> py_error + real list" where
  "linspace start stop num =
     (if num < 0 then Inl ValueError
      else if num = 1 then Inr [start]
      else Inr (map (\<lambda>i. start + real i * ((stop - start) / (real_of_int num - 1)))
                 [0..<nat num]))"

text \<open>\<^verbatim>\<open>np.meshgrid(x, y)\<close> with the default \<^verbatim>\<open>indexing='xy'\<close>.\<close>

definition meshgrid :: "real list \<Rightarrow> real list \<Rightarrow> ndarray2 \<times> ndarray2" where
  "meshgrid x y = (map (\<lambda>_. x) y, map (\<lambda>v. map (\<lambda>_. v) x) y)"

definition ones_like :: "ndarray2 \<Rightarrow> ndarray2" where
  "ones_like a = map (map (\<lambda>_. 1)) a"

text \<open>An elementwise binary operation on two arrays of the same shape, and a unary one.\<close>

definition ew2 :: "(real \<Rightarrow> real \<Rightarrow> real) \<Rightarrow> ndarray2 \<Rightarrow> ndarray2 \<Rightarrow> ndarray2" where
  "ew2 f a b = map2 (map2 f) a b"

definition ew1 :: "(real \<Rightarrow> real) \<Rightarrow> ndarray2 \<Rightarrow> ndarray2" where
  "ew1 f a = map (map f) a"

text \<open>\<^verbatim>\<open>a.T\<close> and \<^verbatim>\<open>a @ b\<close> for two-dimensional arrays.\<close>

definition T :: "ndarray2 \<Rightarrow> ndarray2" where
  "T a = map (\<lambda>j. map (\<lambda>row. row ! j) a) [0..<ncols a]"

definition matmul :: "ndarray2 \<Rightarrow> ndarray2 \<Rightarrow> ndarray2" where
  "matmul a b =
     map (\<lambda>row. map (\<lambda>j. sum_list (map2 (*) row (map (\<lambda>r. r ! j) b))) [0..<ncols b]) a"

text \<open>\<^verbatim>\<open>np.stack([xv, yv, zv], axis=-1)\<close> followed by \<^verbatim>\<open>reshape(-1, 3)\<close>.\<close>

definition stack3 :: "ndarray2 \<Rightarrow> ndarray2 \<Rightarrow> ndarray2 \<Rightarrow> real list list list" where
  "stack3 xv yv zv =
     map2 (\<lambda>xr (yr, zr). map2 (\<lambda>a (b, c). [a, b, c]) xr (zip yr zr)) xv (zip yv zv)"

definition reshape_rows3 :: "real list list list \<Rightarrow> ndarray2" where
  "reshape_rows3 a = concat a"

text \<open>\<^verbatim>\<open>a.reshape(n, m)\<close> of a one-dimensional array; a size mismatch raises.\<close>

definition reshape2 :: "real list \<Rightarrow> int \<Rightarrow> int \<Rightarrow> py_error + ndarray2" where
  "reshape2 a n m =
     (if 0 \<le> n \<and> 0 \<le> m \<and> int (length a) = n * m
      then Inr (map (\<lambda>i. take (nat m) (drop (i * nat m) a)) [0..<nat n])
      else Inl ValueError)"

text \<open>
  \<^verbatim>\<open>np.arctan2(y, x)\<close>: the angle of the point \<open>(x, y)\<close>, in \<open>(-\<pi>, \<pi>]\<close>.
\<close>

definition arctan2 :: "real \<Rightarrow> real \<Rightarrow> real" where
  "arctan2 y x =
     (if 0 < x then arctan (y / x)
      else if x < 0 then (if 0 \<le> y then arctan (y / x) + pi else arctan (y / x) - pi)
      else if 0 < y then pi / 2
      else if y < 0 then - (pi / 2)
      else 0)"

subsection \<open>The resampler: cv2.remap with INTER\_LINEAR and BORDER\_WRAP\<close>

text \<open>
  OpenCV is not part of the repository; the call at line 102 is modelled by the
  documented meaning of its arguments. \<^verbatim>\<open>borderInterpolate\<close> gives the source index
  read for an index \<open>p\<close> outside \<open>0..len-1\<close>: \<open>BORDER_WRAP\<close> continues
  periodically, \<open>BORDER_REPLICATE\<close> repeats the outermost element.
\<close>

datatype border_mode = BORDER_WRAP | BORDER_REPLICATE

fun borderInterpolate :: "int \<Rightarrow> int \<Rightarrow> border_mode \<Rightarrow> int" where
  "borderInterpolate p len BORDER_WRAP = p mod len"
| "borderInterpolate p len BORDER_REPLICATE = (if p < 0 then 0 else if len \<le> p then len - 1 else p)"

text \<open>
  The pixel read at the integer position (column \<open>c\<close>, row \<open>r\<close>), the border mode
  applied to both axes as \<^verbatim>\<open>remap\<close> does.
\<close>

definition fetch :: "image \<Rightarrow> border_mode \<Rightarrow> int \<Rightarrow> int \<Rightarrow> pixel" where
  "fetch src bm c r =
     src ! nat (borderInterpolate r (int (length src)) bm)
         ! nat (borderInterpolate c (int (ncols src)) bm)"

text \<open>
  Bilinear interpolation at \<open>(x, y)\<close> over the four neighbours of the position, channel
  by channel. The weighted sum is converted to the sample type of the image (for the
  8-bit images of \<^verbatim>\<open>cv2.imread\<close> a rounding and saturation inside OpenCV): this
  conversion is the parameter \<open>cast\<close>, about which nothing is assumed.
\<close>

definition sample ::
  "(real \<Rightarrow> real) \<Rightarrow> image \<Rightarrow> border_mode \<Rightarrow> real \<Rightarrow> real \<Rightarrow> pixel" where
  "sample cast src bm x y =
     (let sx = \<lfloor>x\<rfloor>; sy = \<lfloor>y\<rfloor>;
          a = x - of_int sx; b = y - of_int sy;
          p00 = fetch src bm sx sy; p01 = fetch src bm (sx + 1) sy;
          p10 = fetch src bm sx (sy + 1); p11 = fetch src bm (sx + 1) (sy + 1)
      in map (\<lambda>k. cast ((1 - a) * (1 - b) * (p00 ! k) + a * (1 - b) * (p01 ! k)
                 + (1 - a) * b * (p10 ! k) + a * b * (p11 ! k)))
           [0..<length p00])"

text \<open>
  \<^verbatim>\<open>cv2.remap(src, map_x, map_y, cv2.INTER_LINEAR, borderMode=bm)\<close>: the destination has
  the shape of the maps. OpenCV asserts that the map is not empty and that source and
  destination have fewer than \<open>SHRT_MAX = 32767\<close> rows and columns; a failed assertion
  is a \<^verbatim>\<open>cv2.error\<close>. The destination is a freshly allocated buffer: what it holds
  before the call is the parameter \<open>buf\<close> (row, column). For a source without pixels
  nothing is written, and the call returns the buffer as it was.
\<close>

definition SHRT_MAX :: nat where
  "SHRT_MAX = 32767"

definition cv2_remap ::
  "(real \<Rightarrow> real) \<Rightarrow> (nat \<Rightarrow> nat \<Rightarrow> pixel) \<Rightarrow> image \<Rightarrow> ndarray2 \<Rightarrow> ndarray2 \<Rightarrow> border_mode
     \<Rightarrow> py_error + image" where
  "cv2_remap cast buf src map_x map_y bm =
     (if map_x = [] \<or> ncols map_x = 0 then Inl Cv2Error
      else if length map_x < SHRT_MAX \<and> ncols map_x < SHRT_MAX
              \<and> length src < SHRT_MAX \<and> ncols src < SHRT_MAX
      then (if src = [] \<or> ncols src = 0
            then Inr (map (\<lambda>r. map (\<lambda>c. buf r c) [0..<ncols map_x]) [0..<length map_x])
            else Inr (map2 (map2 (sample cast src bm)) map_x map_y))
      else Inl Cv2Error)"

subsection \<open>rotation\_matrix\<close>

definition rotation_matrix :: "real \<Rightarrow> string \<Rightarrow> py_error + ndarray2" where
  "rotation_matrix angle axis =
     (if axis = ''x'' then
        Inr [[1, 0, 0],
             [0, cos angle, - sin angle],
             [0, sin angle, cos angle]]
      else if axis = ''y'' then
        Inr [[cos angle, 0, sin angle],
             [0, 1, 0],
             [- sin angle, 0, cos angle]]
      else if axis = ''z'' then
        Inr [[cos angle, - sin angle, 0],
             [sin angle, cos angle, 0],
             [0, 0, 1]]
      else Inl ValueError)"

subsection \<open>perspective\_projection\<close>

definition fov :: real where
  "fov = 90"

text \<open>Lines 62 to 71: the grid of rays \<open>(x, y, 1)\<close>, each divided by its norm.\<close>

definition normalized_grid :: "int \<Rightarrow> py_error + (ndarray2 \<times> ndarray2 \<times> ndarray2)" where
  "normalized_grid face_size =
     bind_err (linspace (- 1) 1 face_size) (\<lambda>x.
     bind_err (linspace (- 1) 1 face_size) (\<lambda>y.
       let (xv, yv) = meshgrid x (map uminus y);
           zv = ones_like xv;
           norm = ew1 sqrt (ew2 (+) (ew2 (+) (ew1 (\<lambda>v. v\<^sup>2) xv) (ew1 (\<lambda>v. v\<^sup>2) yv))
                                   (ew1 (\<lambda>v. v\<^sup>2) zv))
       in Inr (ew2 (/) xv norm, ew2 (/) yv norm, ew2 (/) zv norm)))"

text \<open>Lines 74 to 77: the rescaling by the tangent of half the field of view.\<close>

definition fov_rescale :: "ndarray2 \<times> ndarray2 \<times> ndarray2 \<Rightarrow> ndarray2 \<times> ndarray2 \<times> ndarray2" where
  "fov_rescale g =
     (case g of (xv, yv, zv) \<Rightarrow>
        let theta = deg2rad (fov / 2);
            xv' = ew1 (\<lambda>v. v * tan theta) xv;
            yv' = ew1 (\<lambda>v. v * tan theta) yv;
            zv' = ew2 (*) zv (ones_like xv')
        in (xv', yv', zv'))"

text \<open>Lines 80 to 83, angles in radians.\<close>

definition compose_rotation :: "real \<Rightarrow> real \<Rightarrow> real \<Rightarrow> py_error + ndarray2" where
  "compose_rotation yaw pitch roll =
     bind_err (rotation_matrix yaw ''y'') (\<lambda>R_yaw.
     bind_err (rotation_matrix pitch ''x'') (\<lambda>R_pitch.
     bind_err (rotation_matrix roll ''z'') (\<lambda>R_roll.
       Inr (matmul (matmul R_roll R_pitch) R_yaw))))"

text \<open>Lines 86 and 87 (up to the transposition): one row \<open>[x, y, z]\<close> per ray, row-major.\<close>

definition ray_rows :: "ndarray2 \<times> ndarray2 \<times> ndarray2 \<Rightarrow> ndarray2" where
  "ray_rows g = (case g of (xv, yv, zv) \<Rightarrow> reshape_rows3 (stack3 xv yv zv))"

text \<open>Lines 87 to 89: the rays as columns, rotated, and back to rows.\<close>

definition apply_rotation :: "ndarray2 \<Rightarrow> ndarray2 \<Rightarrow> ndarray2" where
  "apply_rotation R rows = (let vec = T rows; vec_rot = matmul R vec in T vec_rot)"

text \<open>Lines 92 to 97 for the rotated rays and the shape of the panorama.\<close>

definition spherical_map :: "ndarray2 \<Rightarrow> int \<Rightarrow> int \<Rightarrow> real list \<times> real list" where
  "spherical_map vec_rot shape0 shape1 =
     (let lon = map (\<lambda>v. arctan2 (v ! 0) (v ! 2)) vec_rot;
          lat = map (\<lambda>v. arcsin (v ! 1)) vec_rot;
          src_x = map (\<lambda>l. (l + pi) / (2 * pi) * (of_int shape1 - 1)) lon;
          src_y = map (\<lambda>l. (pi / 2 - l) / pi * (of_int shape0 - 1)) lat
      in (src_x, src_y))"

text \<open>
  The ray grid of lines 62 to 87: the rows \<open>[x, y, z]\<close> that line 87 transposes.
\<close>

definition ray_grid :: "int \<Rightarrow> py_error + ndarray2" where
  "ray_grid face_size = bind_err (normalized_grid face_size) (\<lambda>g. Inr (ray_rows (fov_rescale g)))"

text \<open>
  Lines 55 to 101: everything before the call of the resampler. The conversion of the
  maps to \<^verbatim>\<open>float32\<close> is the identity on real numbers. The rotation matrices are
  built after the grid in the source as well, so a failing grid is the first error.
\<close>

definition projection_maps ::
  "image \<Rightarrow> int \<Rightarrow> real \<Rightarrow> real \<Rightarrow> real \<Rightarrow> py_error + (ndarray2 \<times> ndarray2)" where
  "projection_maps equirect_img face_size yaw pitch roll =
     bind_err (ray_grid face_size) (\<lambda>rows.
     bind_err (compose_rotation (deg2rad yaw) (deg2rad pitch) (deg2rad roll)) (\<lambda>R.
       let vec_rot = apply_rotation R rows;
           (src_x, src_y) = spherical_map vec_rot (int (length equirect_img))
                                                  (int (ncols equirect_img))
       in bind_err (reshape2 src_x face_size face_size) (\<lambda>map_x.
          bind_err (reshape2 src_y face_size face_size) (\<lambda>map_y.
            Inr (map_x, map_y)))))"

text \<open>
  The whole function. \<open>cast\<close> and \<open>buf\<close> are the two things the call of line 102
  depends on besides its arguments.
\<close>

definition perspective_projection ::
  "(real \<Rightarrow> real) \<Rightarrow> (nat \<Rightarrow> nat \<Rightarrow> pixel) \<Rightarrow> image \<Rightarrow> int \<Rightarrow> real \<Rightarrow> real \<Rightarrow> real
     \<Rightarrow> py_error + image" where
  "perspective_projection cast buf equirect_img face_size yaw pitch roll =
     bind_err (projection_maps equirect_img face_size yaw pitch roll) (\<lambda>(map_x, map_y).
       cv2_remap cast buf equirect_img map_x map_y BORDER_WRAP)"

subsection \<open>equirectangular\_to\_cubemap\<close>

definition face_angles :: "string \<rightharpoonup> real \<times> real \<times> real" where
  "face_angles =
     [''front'' \<mapsto> (0, 0, 0), ''right'' \<mapsto> (90, 0, 0),
      ''back'' \<mapsto> (180, 0, 0), ''left'' \<mapsto> (- 90, 0, 0)]"

text \<open>
  The loop of lines 36 to 39 with the list \<^verbatim>\<open>faces\<close> as its state. Every call
  allocates its own destination: \<open>bufs k\<close> is the buffer of the call made when \<open>k\<close>
  faces are done.
\<close>

fun faces_loop ::
  "(real \<Rightarrow> real) \<Rightarrow> (nat \<Rightarrow> nat \<Rightarrow> nat \<Rightarrow> pixel) \<Rightarrow> image \<Rightarrow> int \<Rightarrow> string list
     \<Rightarrow> image list \<Rightarrow> py_error + image list" where
  "faces_loop cast bufs img face_size [] faces = Inr faces"
| "faces_loop cast bufs img face_size (face # rest) faces =
     (case face_angles face of
        None \<Rightarrow> Inl KeyError
      | Some (yaw, pitch, roll) \<Rightarrow>
          bind_err (perspective_projection cast (bufs (length faces)) img face_size
                      yaw pitch roll) (\<lambda>face_img.
            faces_loop cast bufs img face_size rest (faces @ [face_img])))"

definition equirectangular_to_cubemap ::
  "(real \<Rightarrow> real) \<Rightarrow> (nat \<Rightarrow> nat \<Rightarrow> nat \<Rightarrow> pixel) \<Rightarrow> image \<Rightarrow> int \<Rightarrow> py_error + image list" where
  "equirectangular_to_cubemap cast bufs img face_size =
     faces_loop cast bufs img face_size [''front'', ''right'', ''back'', ''left''] []"

subsection \<open>process\_panoramas\<close>

text \<open>
  \<^verbatim>\<open>str.lower\<close> on the code points below 256, \<^verbatim>\<open>str.endswith\<close> with a tuple of
  suffixes, and the POSIX versions of \<^verbatim>\<open>os.path.join\<close> (two arguments) and
  \<^verbatim>\<open>os.path.splitext\<close>.
\<close>

definition lower_char :: "char \<Rightarrow> char" where
  "lower_char c = (let n = (of_char c :: nat) in
     if (65 \<le> n \<and> n \<le> 90) \<or> (192 \<le> n \<and> n \<le> 214) \<or> (216 \<le> n \<and> n \<le> 222)
     then char_of (n + 32) else c)"

definition lower :: "string \<Rightarrow> string" where
  "lower s = map lower_char s"

definition endswith :: "string \<Rightarrow> string \<Rightarrow> bool" where
  "endswith s suf = (length suf \<le> length s \<and> drop (length s - length suf) s = suf)"

definition endswith_any :: "string \<Rightarrow> string list \<Rightarrow> bool" where
  "endswith_any s sufs = list_ex (endswith s) sufs"

definition path_join :: "string \<Rightarrow> string \<Rightarrow> string" where
  "path_join a b =
     (if startswith b ''/'' then b
      else if a = [] \<or> endswith a ''/'' then a @ b
      else a @ ''/'' @ b)"

text \<open>\<^verbatim>\<open>str.rfind\<close> for one character: the last position, or \<open>-1\<close>.\<close>

definition rfind :: "string \<Rightarrow> char \<Rightarrow> int" where
  "rfind s c =
     (if c \<in> set s then int (length s) - 1 - int (length (takeWhile (\<lambda>d. d \<noteq> c) (rev s)))
      else - 1)"

text \<open>
  The extension starts at the last dot when that dot comes after the last separator and
  after a character of the file name that is not a dot.
\<close>

definition splitext :: "string \<Rightarrow> string \<times> string" where
  "splitext p =
     (let sepIndex = rfind p (CHR ''/''); dotIndex = rfind p (CHR ''.'')
      in if dotIndex > sepIndex
            \<and> list_ex (\<lambda>d. d \<noteq> CHR ''.'')
                 (take (nat (dotIndex - (sepIndex + 1))) (drop (nat (sepIndex + 1)) p))
         then (take (nat dotIndex) p, drop (nat dotIndex) p)
         else (p, []))"

text \<open>
  The loop of lines 147 to 163 over the result of \<^verbatim>\<open>os.listdir\<close>. The decoder
  \<^verbatim>\<open>cv2.imread\<close> is the parameter \<open>imread\<close> (\<open>None\<close> for a file it cannot decode); the
  state \<open>written\<close> is the list of the calls of \<^verbatim>\<open>cv2.imwrite\<close> made so far, each a
  path and an image. Creating the output folder and the progress messages are left out.
  The buffers of the calls of \<^verbatim>\<open>cv2.remap\<close> are numbered through the whole run.
\<close>

fun process_loop ::
  "(real \<Rightarrow> real) \<Rightarrow> (nat \<Rightarrow> nat \<Rightarrow> nat \<Rightarrow> pixel) \<Rightarrow> (string \<Rightarrow> image option)
     \<Rightarrow> string \<Rightarrow> string \<Rightarrow> int \<Rightarrow> string list
     \<Rightarrow> (string \<times> image) list \<Rightarrow> py_error + (string \<times> image) list" where
  "process_loop cast bufs imread input_folder output_folder face_size [] written = Inr written"
| "process_loop cast bufs imread input_folder output_folder face_size (filename # rest) written =
     (if endswith_any (lower filename) [''.jpg'', ''.jpeg'', ''.png''] then
        (let img_path = path_join input_folder filename in
         case imread img_path of
           None \<Rightarrow>
             process_loop cast bufs imread input_folder output_folder face_size rest written
         | Some img \<Rightarrow>
             bind_err (equirectangular_to_cubemap cast (\<lambda>k. bufs (length written + k))
                         img face_size) (\<lambda>cubemap_faces.
               let base_name = fst (splitext filename);
                   face_names = [''front'', ''right'', ''back'', ''left''];
                   saved = map (\<lambda>(face, face_img).
                             (path_join output_folder (base_name @ ''_'' @ face @ ''.jpg''),
                              face_img))
                           (zip face_names cubemap_faces)
               in process_loop cast bufs imread input_folder output_folder face_size rest
                    (written @ saved)))
      else process_loop cast bufs imread input_folder output_folder face_size rest written)"

definition process_panoramas ::
  "(real \<Rightarrow> real) \<Rightarrow> (nat \<Rightarrow> nat \<Rightarrow> nat \<Rightarrow> pixel) \<Rightarrow> (string \<Rightarrow> image option)
     \<Rightarrow> string list \<Rightarrow> string \<Rightarrow> string \<Rightarrow> int
     \<Rightarrow> py_error + (string \<times> image) list" where
  "process_panoramas cast bufs imread listing input_folder output_folder face_size =
     process_loop cast bufs imread input_folder output_folder face_size listing []"

subsection \<open>Notions of the specification\<close>

text \<open>
  The elementary rotations in the words of the specification: yaw about the vertical
  axis \<open>y\<close>, pitch about the horizontal axis \<open>x\<close>, roll about the forward axis \<open>z\<close>,
  each by the right-handed formula.
\<close>

definition R_yaw :: "real \<Rightarrow> ndarray2" where
  "R_yaw a = [[cos a, 0, sin a], [0, 1, 0], [- sin a, 0, cos a]]"

definition R_pitch :: "real \<Rightarrow> ndarray2" where
  "R_pitch a = [[1, 0, 0], [0, cos a, - sin a], [0, sin a, cos a]]"

definition R_roll :: "real \<Rightarrow> ndarray2" where
  "R_roll a = [[cos a, - sin a, 0], [sin a, cos a, 0], [0, 0, 1]]"

definition identity3 :: ndarray2 where
  "identity3 = [[1, 0, 0], [0, 1, 0], [0, 0, 1]]"

text \<open>The spherical mapper of section 4.3, formula by formula.\<close>

definition spec_lon :: "real \<Rightarrow> real \<Rightarrow> real" where
  "spec_lon x z = arctan2 x z"

definition spec_lat :: "real \<Rightarrow> real" where
  "spec_lat y = arcsin y"

definition spec_u :: "real \<Rightarrow> real" where
  "spec_u lon = (lon + pi) / (2 * pi)"

definition spec_v :: "real \<Rightarrow> real" where
  "spec_v lat = (pi / 2 - lat) / pi"

definition spec_src_x :: "real \<Rightarrow> int \<Rightarrow> real" where
  "spec_src_x u panoramaWidth = u * (of_int panoramaWidth - 1)"

definition spec_src_y :: "real \<Rightarrow> int \<Rightarrow> real" where
  "spec_src_y v panoramaHeight = v * (of_int panoramaHeight - 1)"

text \<open>
  The planar grid of section 4.1: \<open>n\<close> evenly spaced coordinates from \<open>-1\<close> to \<open>1\<close>
  (a single coordinate \<open>-1\<close> when \<open>n = 1\<close>), the row coordinate negated, and the ray
  through the grid point \<open>(x, y, 1)\<close> scaled to unit length.
\<close>

definition grid_coord :: "nat \<Rightarrow> nat \<Rightarrow> real" where
  "grid_coord n i = (if n = 1 then - 1 else - 1 + 2 * real i / (real n - 1))"

definition unit_ray :: "real \<Rightarrow> real \<Rightarrow> real list" where
  "unit_ray x y = [x / sqrt (x\<^sup>2 + y\<^sup>2 + 1), y / sqrt (x\<^sup>2 + y\<^sup>2 + 1), 1 / sqrt (x\<^sup>2 + y\<^sup>2 + 1)]"

definition spec_ray :: "nat \<Rightarrow> nat \<Rightarrow> nat \<Rightarrow> real list" where
  "spec_ray n r c = unit_ray (grid_coord n c) (- grid_coord n r)"

text \<open>A matrix applied to one vector.\<close>

definition mat_vec :: "ndarray2 \<Rightarrow> real list \<Rightarrow> real list" where
  "mat_vec R v = map (\<lambda>row. sum_list (map2 (*) row v)) R"

text \<open>Shapes: an image of \<open>h\<close> rows, \<open>w\<close> columns and \<open>c\<close> channels.\<close>

definition has_shape :: "image \<Rightarrow> nat \<Rightarrow> nat \<Rightarrow> nat \<Rightarrow> bool" where
  "has_shape img h w c =
     (length img = h \<and> list_all (\<lambda>row. length row = w \<and> list_all (\<lambda>p. length p = c) row) img)"

text \<open>The array with \<open>n\<close> rows and \<open>m\<close> columns whose entry at row \<open>r\<close>, column \<open>c\<close> is \<open>A r c\<close>.\<close>

definition tab :: "nat \<Rightarrow> nat \<Rightarrow> (nat \<Rightarrow> nat \<Rightarrow> 'a) \<Rightarrow> 'a list list" where
  "tab n m A = map (\<lambda>r. map (\<lambda>c. A r c) [0..<m]) [0..<n]"

text \<open>
  The composed rotation for a direction given in degrees, and the panorama coordinates
  that the ray of row \<open>r\<close> and column \<open>c\<close> of a face of size \<open>n\<close> is mapped to.
\<close>

definition rot :: "real \<Rightarrow> real \<Rightarrow> real \<Rightarrow> ndarray2" where
  "rot yaw pitch roll =
     matmul (matmul (R_roll (deg2rad roll)) (R_pitch (deg2rad pitch))) (R_yaw (deg2rad yaw))"

definition map_x_at :: "image \<Rightarrow> nat \<Rightarrow> real \<Rightarrow> real \<Rightarrow> real \<Rightarrow> nat \<Rightarrow> nat \<Rightarrow> real" where
  "map_x_at img n yaw pitch roll r c =
     spec_src_x (spec_u (spec_lon (mat_vec (rot yaw pitch roll) (spec_ray n r c) ! 0)
                                  (mat_vec (rot yaw pitch roll) (spec_ray n r c) ! 2)))
       (int (ncols img))"

definition map_y_at :: "image \<Rightarrow> nat \<Rightarrow> real \<Rightarrow> real \<Rightarrow> real \<Rightarrow> nat \<Rightarrow> nat \<Rightarrow> real" where
  "map_y_at img n yaw pitch roll r c =
     spec_src_y (spec_v (spec_lat (mat_vec (rot yaw pitch roll) (spec_ray n r c) ! 1)))
       (int (length img))"

text \<open>The face of size \<open>n\<close> for one direction: one sample per ray, wrapped on both axes.\<close>

definition face_image :: "(real \<Rightarrow> real) \<Rightarrow> image \<Rightarrow> nat \<Rightarrow> real \<Rightarrow> real \<Rightarrow> real \<Rightarrow> image" where
  "face_image cast img n yaw pitch roll =
     tab n n (\<lambda>r c. sample cast img BORDER_WRAP (map_x_at img n yaw pitch roll r c)
                                                (map_y_at img n yaw pitch roll r c))"



text \<open>A buffer that holds the same pixel everywhere, and the same buffer for every call.\<close>

definition buffer_of :: "pixel \<Rightarrow> nat \<Rightarrow> nat \<Rightarrow> pixel" where
  "buffer_of p r c = p"

definition buffers_of :: "pixel \<Rightarrow> nat \<Rightarrow> nat \<Rightarrow> nat \<Rightarrow> pixel" where
  "buffers_of p k r c = p"

text \<open>Running computations in order: the first error is the result.\<close>

fun sequence_err :: "('e + 'a) list \<Rightarrow> 'e + 'a list" where
  "sequence_err [] = Inr []"
| "sequence_err (m # ms) = bind_err m (\<lambda>v. bind_err (sequence_err ms) (\<lambda>vs. Inr (v # vs)))"

text \<open>
  A decoded panorama: at least one row and one column, all rows of one width and all
  pixels of one channel count. The resampler accepts it when it has fewer than
  \<open>SHRT_MAX\<close> rows and columns.
\<close>

definition nchannels :: "image \<Rightarrow> nat" where
  "nchannels img = (case img of (p # _) # _ \<Rightarrow> length p | _ \<Rightarrow> 0)"

definition wf_image :: "image \<Rightarrow> bool" where
  "wf_image img =
     (img \<noteq> [] \<and> ncols img \<noteq> 0 \<and> has_shape img (length img) (ncols img) (nchannels img))"

definition remap_size_ok :: "image \<Rightarrow> bool" where
  "remap_size_ok img = (length img < SHRT_MAX \<and> ncols img < SHRT_MAX)"

text \<open>
  What the orchestrator writes for one directory entry: nothing for a name without one
  of the three extensions or a file that does not decode, otherwise the four faces in
  the order front, right, back, left, each under the base name of the input followed by
  an underscore, the face name and \<open>.jpg\<close>.
\<close>

definition canonical_faces :: "(string \<times> real \<times> real \<times> real) list" where
  "canonical_faces =
     [(''front'', 0, 0, 0), (''right'', 90, 0, 0), (''back'', 180, 0, 0), (''left'', - 90, 0, 0)]"

definition file_writes ::
  "(real \<Rightarrow> real) \<Rightarrow> (string \<Rightarrow> image option) \<Rightarrow> string \<Rightarrow> string \<Rightarrow> nat \<Rightarrow> string
     \<Rightarrow> (string \<times> image) list" where
  "file_writes cast imread input_folder output_folder n filename =
     (if endswith_any (lower filename) [''.jpg'', ''.jpeg'', ''.png''] then
        (case imread (path_join input_folder filename) of
           None \<Rightarrow> []
         | Some img \<Rightarrow>
             map (\<lambda>(face, yaw, pitch, roll).
                    (path_join output_folder (fst (splitext filename) @ ''_'' @ face @ ''.jpg''),
                     face_image cast img n yaw pitch roll))
               canonical_faces)
      else [])"

section \<open>Properties of parse\_cameras\<close>

lemma bind_err_simps [simp]:
  "bind_err (Inr v) f = f v"
  "bind_err (Inl e) f = Inl e"
  by (simp_all add: bind_err_def)

lemma map_float_those:
  "map_float pf ts = (case those (map pf ts) of None \<Rightarrow> Inl ValueError | Some vs \<Rightarrow> Inr vs)"
  by (induction ts) (auto split: option.splits)

lemma those_length: "those xs = Some vs \<Longrightarrow> length vs = length xs"
  by (induction xs arbitrary: vs) (auto split: option.splits)

lemma those_append:
  "those (xs @ ys) =
     (case those xs of None \<Rightarrow> None
      | Some a \<Rightarrow> (case those ys of None \<Rightarrow> None | Some b \<Rightarrow> Some (a @ b)))"
  by (induction xs) (auto split: option.splits)

lemma list13:
  assumes "length (xs :: 'a list) = 13"
  shows "xs = take 9 xs @ take 3 (drop 9 xs) @ [xs ! 12]"
proof -
  have a: "drop 12 xs = [xs ! 12]"
    using assms by (metis Cons_nth_drop_Suc drop_all eval_nat_numeral(3) lessI order_refl)
  have "drop 9 xs = take 3 (drop 9 xs) @ drop 3 (drop 9 xs)"
    by (simp only: append_take_drop_id)
  then have b: "drop 9 xs = take 3 (drop 9 xs) @ [xs ! 12]"
    using a by simp
  have "xs = take 9 xs @ drop 9 xs"
    by (simp only: append_take_drop_id)
  then show ?thesis using b by simp
qed

lemma try_body_those:
  assumes "length parts = 13"
  shows "try_body pf parts =
     (case those (map pf parts) of
        None \<Rightarrow> Inl ValueError
      | Some vs \<Rightarrow> Inr (camera_of_values vs))"
proof -
  define a where "a = take 9 parts"
  define b where "b = take 3 (drop 9 parts)"
  define c where "c = parts ! 12"
  have parts: "parts = a @ b @ [c]"
    unfolding a_def b_def c_def by (rule list13 [OF assms])
  have la: "length a = 9" and lb: "length b = 3"
    using assms by (simp_all add: a_def b_def)
  have g12: "py_getitem parts 12 = Inr c"
    using assms by (simp add: py_getitem_def c_def)
  show ?thesis
  proof (cases "those (map pf a)")
    case None
    have "those (map pf parts) = None"
      by (subst parts) (simp add: those_append None)
    moreover have "try_body pf parts = Inl ValueError"
      unfolding try_body_def a_def [symmetric] by (simp add: map_float_those None)
    ultimately show ?thesis by simp
  next
    case (Some va)
    note Sa = this
    have lva: "length va = 9" using those_length [OF Sa] la by simp
    show ?thesis
    proof (cases "those (map pf b)")
      case None
      have "those (map pf parts) = None"
        by (subst parts) (simp add: those_append None Sa)
      moreover have "try_body pf parts = Inl ValueError"
        unfolding try_body_def a_def [symmetric] b_def [symmetric]
        by (simp add: map_float_those None Sa)
      ultimately show ?thesis by simp
    next
      case (Some vb)
      note Sb = this
      have lvb: "length vb = 3" using those_length [OF Sb] lb by simp
      show ?thesis
      proof (cases "pf c")
        case None
        have "those (map pf parts) = None"
          by (subst parts) (simp add: those_append None Sa Sb)
        moreover have "try_body pf parts = Inl ValueError"
          unfolding try_body_def a_def [symmetric] b_def [symmetric] g12
          by (simp add: map_float_those None Sa Sb py_float_def)
        ultimately show ?thesis by simp
      next
        case (Some vc)
        have "those (map pf parts) = Some (va @ vb @ [vc])"
          by (subst parts) (simp add: those_append Sa Sb Some)
        moreover have "try_body pf parts = Inr (camera_of_values (va @ vb @ [vc]))"
          unfolding try_body_def a_def [symmetric] b_def [symmetric] g12
          using lva lvb
          by (auto simp: map_float_those Sa Sb Some py_float_def py_getitem_def
              camera_of_values_def nth_append)
        ultimately show ?thesis by simp
      qed
    qed
  qed
qed

lemma parse_lines_spec:
  "parse_lines pf lines acc = Inr (acc @ List.map_filter (spec_line_record pf) lines)"
proof (induction lines arbitrary: acc)
  case Nil
  show ?case by simp
next
  case (Cons line lines)
  show ?case
    by (simp add: Cons.IH spec_line_record_def try_body_those Let_def
        split: option.splits)
qed

text \<open>
  C10, as the code has it. \<^verbatim>\<open>parse_cameras\<close> raises exactly when opening or reading
  the file raises (a missing file, a file that cannot be decoded), and then with that
  exception. For every file that is read it returns a list and does not raise. The list
  holds, in the order of the lines, one record for each line that does not start with
  \<open>#\<close>, is not blank, splits into exactly 13 whitespace-separated tokens and whose 13
  tokens all pass \<^verbatim>\<open>float\<close>; every other line is skipped. The fields R00 to R22, Tx,
  Ty, Tz and FocalLength of a record are the 13 parsed values of its line, in that
  order.
\<close>

theorem parse_cameras_raises_only_on_read:
  "parse_cameras pf read_lines file_path =
     (case read_lines file_path of
        Inl e \<Rightarrow> Inl e
      | Inr lines \<Rightarrow> Inr (List.map_filter (spec_line_record pf) lines))"
  by (cases "read_lines file_path") (simp_all add: parse_cameras_def parse_lines_spec)

theorem parse_cameras_raises_only_on_read_witness:
  "parse_cameras [''1'' \<mapsto> 1 :: int, ''0'' \<mapsto> 0, ''35'' \<mapsto> 35]
     (one_file ''cameras.txt''
        [''# cameras\<newline>'', ''1 0 0  0 1 0  0 0 1  0 0 0  35\<newline>'', ''\<newline>'',
         ''1 0 0\<newline>'', ''1 0 0 0 1 0 0 0 1 0 0 0 f\<newline>''])
     ''cameras.txt'' =
   Inr [\<lparr>R00 = 1, R01 = 0, R02 = 0, R10 = 0, R11 = 1, R12 = 0, R20 = 0, R21 = 0, R22 = 1,
         Tx = 0, Ty = 0, Tz = 0, FocalLength = 35\<rparr>]"
  using parse_cameras_raises_only_on_read
    [of "[''1'' \<mapsto> 1 :: int, ''0'' \<mapsto> 0, ''35'' \<mapsto> 35]"
        "one_file ''cameras.txt''
           [''# cameras\<newline>'', ''1 0 0  0 1 0  0 0 1  0 0 0  35\<newline>'', ''\<newline>'',
            ''1 0 0\<newline>'', ''1 0 0 0 1 0 0 0 1 0 0 0 f\<newline>'']"
        "''cameras.txt''"]
  by (simp add: one_file_def List.map_filter_def spec_line_record_def startswith_def strip_def
      split_def isspace_def camera_of_values_def)

text \<open>
  The claim C10 fails for a file that does not exist: \<^verbatim>\<open>open\<close> raises at line 6,
  outside the \<^verbatim>\<open>try\<close> block, and the exception leaves \<^verbatim>\<open>parse_cameras\<close>.
\<close>

theorem parse_cameras_missing_file_counterexample:
  "parse_cameras (Map.empty :: string \<Rightarrow> int option) (one_file ''other.txt'' []) ''cameras.txt'' =
     Inl FileNotFoundError"
  by (simp add: parse_cameras_def one_file_def)

section \<open>Properties of the rotation\<close>

lemma upt3: "[0..<3] = [0, 1, 2]"
  by (simp add: upt_conv_Cons)

lemma rotation_matrix_axes:
  "rotation_matrix a ''y'' = Inr (R_yaw a)"
  "rotation_matrix a ''x'' = Inr (R_pitch a)"
  "rotation_matrix a ''z'' = Inr (R_roll a)"
  by (simp_all add: rotation_matrix_def R_yaw_def R_pitch_def R_roll_def)

lemma compose_rotation_eq:
  "compose_rotation yaw pitch roll =
     Inr (matmul (matmul (R_roll roll) (R_pitch pitch)) (R_yaw yaw))"
  by (simp add: compose_rotation_def rotation_matrix_axes)

lemma apply_rotation_single:
  "apply_rotation [[a, b, c], [d, e, f], [g, h, i]] [[x, y, z]] =
     [[a * x + b * y + c * z, d * x + e * y + f * z, g * x + h * y + i * z]]"
  by (simp add: apply_rotation_def T_def matmul_def ncols_def upt3)

lemma matmul3:
  "matmul [[a, b, c], [d, e, f], [g, h, i]] [[a', b', c'], [d', e', f'], [g', h', i']] =
     [[a * a' + b * d' + c * g', a * b' + b * e' + c * h', a * c' + b * f' + c * i'],
      [d * a' + e * d' + f * g', d * b' + e * e' + f * h', d * c' + e * f' + f * i'],
      [g * a' + h * d' + i * g', g * b' + h * e' + i * h', g * c' + h * f' + i * i']]"
  by (simp add: matmul_def ncols_def upt3)

lemma len3: "length v = 3 \<Longrightarrow> [v ! 0, v ! Suc 0, v ! 2] = v"
proof -
  assume "length v = 3"
  then obtain a b c where "v = [a, b, c]"
    by (metis (no_types, opaque_lifting) length_0_conv length_Suc_conv numeral_3_eq_3)
  then show ?thesis by simp
qed

lemma ncols_rows3:
  "rows \<noteq> [] \<Longrightarrow> list_all (\<lambda>v. length v = 3) rows \<Longrightarrow> ncols rows = 3"
  by (cases rows) (simp_all add: ncols_def)

lemma T_rows3:
  assumes "rows \<noteq> []" "list_all (\<lambda>v. length v = 3) rows"
  shows "T rows = [map (\<lambda>r. r ! 0) rows, map (\<lambda>r. r ! 1) rows, map (\<lambda>r. r ! 2) rows]"
  by (simp add: T_def ncols_rows3 [OF assms] upt3)

lemma ncols_map_upt: "R \<noteq> [] \<Longrightarrow> ncols (map (\<lambda>row. map (f row) [0..<n]) R) = n"
  by (cases R) (simp_all add: ncols_def)

text \<open>Rotating the rays as columns of one matrix rotates each ray.\<close>

lemma apply_rotation_rows:
  assumes r3: "list_all (\<lambda>v. length v = 3) rows" and R: "R \<noteq> []"
  shows "apply_rotation R rows = map (mat_vec R) rows"
proof (cases "rows = []")
  case True
  then show ?thesis using R
    by (cases R) (simp_all add: apply_rotation_def T_def matmul_def ncols_def)
next
  case False
  let ?n = "length rows"
  have nT: "ncols (T rows) = ?n"
    by (simp add: T_rows3 [OF False r3] ncols_def)
  have col: "map (\<lambda>r. r ! j) (T rows) = rows ! j" if "j < ?n" for j
  proof -
    have "length (rows ! j) = 3"
      using r3 that by (simp add: list_all_length)
    then show ?thesis
      using that by (simp add: T_rows3 [OF False r3] len3)
  qed
  have M: "matmul R (T rows) =
      map (\<lambda>row. map (\<lambda>j. sum_list (map2 (*) row (rows ! j))) [0..<?n]) R"
    unfolding matmul_def nT using col by simp
  have "T (matmul R (T rows)) =
      T (map (\<lambda>row. map (\<lambda>j. sum_list (map2 (*) row (rows ! j))) [0..<?n]) R)"
    by (simp only: M)
  also have "\<dots> = map (\<lambda>j. map (\<lambda>row. sum_list (map2 (*) row (rows ! j))) R) [0..<?n]"
    by (simp add: T_def ncols_map_upt [OF R])
  also have "\<dots> = map (\<lambda>j. mat_vec R (rows ! j)) [0..<?n]"
    by (simp add: mat_vec_def)
  also have "\<dots> = map (mat_vec R) rows"
    by (rule nth_equalityI) simp_all
  finally show ?thesis by (simp add: apply_rotation_def)
qed

lemma mat_vec_identity3: "length v = 3 \<Longrightarrow> mat_vec identity3 v = v"
proof -
  assume "length v = 3"
  then obtain a b c where "v = [a, b, c]"
    by (metis (no_types, opaque_lifting) length_0_conv length_Suc_conv numeral_3_eq_3)
  then show ?thesis by (simp add: mat_vec_def identity3_def)
qed

text \<open>
  C5. The rotation composed at lines 80 to 83 is \<open>R_roll \<cdot> R_pitch \<cdot> R_yaw\<close>, where yaw
  is the rotation about the vertical axis \<open>y\<close>, pitch the one about the horizontal
  axis \<open>x\<close> and roll the one about the forward axis \<open>z\<close> (each leaves its axis
  fixed). Applied to a camera-space ray it acts as yaw first, then pitch, then roll.
  For yaw 90 degrees and no pitch or roll it maps the ray \<open>(0, 0, 1)\<close> to \<open>(1, 0, 0)\<close>.
\<close>

theorem compose_rotation_order:
  "compose_rotation yaw pitch roll =
     Inr (matmul (matmul (R_roll roll) (R_pitch pitch)) (R_yaw yaw))
   \<and> apply_rotation (matmul (matmul (R_roll roll) (R_pitch pitch)) (R_yaw yaw)) [[x, y, z]] =
       apply_rotation (R_roll roll)
         (apply_rotation (R_pitch pitch) (apply_rotation (R_yaw yaw) [[x, y, z]]))
   \<and> apply_rotation (R_yaw yaw) [[0, 1, 0]] = [[0, 1, 0]]
   \<and> apply_rotation (R_pitch pitch) [[1, 0, 0]] = [[1, 0, 0]]
   \<and> apply_rotation (R_roll roll) [[0, 0, 1]] = [[0, 0, 1]]
   \<and> compose_rotation (deg2rad 90) (deg2rad 0) (deg2rad 0) =
       Inr [[0, 0, 1], [0, 1, 0], [- 1, 0, 0]]
   \<and> apply_rotation [[0, 0, 1], [0, 1, 0], [- 1, 0, 0]] [[0, 0, 1]] = [[1, 0, 0]]"
proof -
  have order: "apply_rotation (matmul (matmul (R_roll roll) (R_pitch pitch)) (R_yaw yaw)) [[x, y, z]] =
       apply_rotation (R_roll roll)
         (apply_rotation (R_pitch pitch) (apply_rotation (R_yaw yaw) [[x, y, z]]))"
    by (simp add: R_yaw_def R_pitch_def R_roll_def matmul3 apply_rotation_single algebra_simps)
  have axes: "apply_rotation (R_yaw yaw) [[0, 1, 0]] = [[0, 1, 0]]"
    "apply_rotation (R_pitch pitch) [[1, 0, 0]] = [[1, 0, 0]]"
    "apply_rotation (R_roll roll) [[0, 0, 1]] = [[0, 0, 1]]"
    by (simp_all add: R_yaw_def R_pitch_def R_roll_def apply_rotation_single)
  have right: "compose_rotation (deg2rad 90) (deg2rad 0) (deg2rad 0) =
       Inr [[0, 0, 1], [0, 1, 0], [- 1, 0, 0]]"
    by (simp add: compose_rotation_eq deg2rad_def R_yaw_def R_pitch_def R_roll_def matmul3)
  have ahead: "apply_rotation [[0, 0, 1], [0, 1, 0], [- 1, 0, 0]] [[0, 0, 1]] = [[1, 0, 0]]"
    by (simp add: apply_rotation_single)
  show ?thesis
    using compose_rotation_eq order axes right ahead by blast
qed

text \<open>
  C8. The rotation composed for the angles \<open>(0, 0, 0)\<close> is the identity matrix, and
  applying it to any list of rays (three components each) leaves every ray unchanged.
\<close>

theorem compose_rotation_zero_identity:
  "compose_rotation (deg2rad 0) (deg2rad 0) (deg2rad 0) = Inr identity3
   \<and> (list_all (\<lambda>v. length v = 3) rows \<longrightarrow> apply_rotation identity3 rows = rows)"
proof -
  have "compose_rotation (deg2rad 0) (deg2rad 0) (deg2rad 0) = Inr identity3"
    by (simp add: compose_rotation_eq deg2rad_def R_yaw_def R_pitch_def R_roll_def matmul3
        identity3_def)
  moreover have "apply_rotation identity3 rows = rows" if r3: "list_all (\<lambda>v. length v = 3) rows"
  proof -
    have "apply_rotation identity3 rows = map (mat_vec identity3) rows"
      by (rule apply_rotation_rows [OF r3]) (simp add: identity3_def)
    also have "\<dots> = map (\<lambda>v. v) rows"
      using r3 by (intro map_cong refl) (simp add: list_all_iff mat_vec_identity3)
    finally show ?thesis by simp
  qed
  ultimately show ?thesis by blast
qed

theorem compose_rotation_zero_identity_witness:
  "list_all (\<lambda>v. length v = 3) [[1, 2, 3], [0, 0, 1 :: real]]
   \<and> compose_rotation (deg2rad 0) (deg2rad 0) (deg2rad 0) = Inr identity3
   \<and> apply_rotation identity3 [[1, 2, 3], [0, 0, 1]] = [[1, 2, 3], [0, 0, 1]]"
  using compose_rotation_zero_identity [of "[[1, 2, 3], [0, 0, 1]]"] by simp

section \<open>Properties of the spherical mapper\<close>

lemma arctan2_bounds: "- pi < arctan2 y x \<and> arctan2 y x \<le> pi"
proof -
  have lb: "- (pi / 2) < arctan t" and ub: "arctan t < pi / 2" for t :: real
    by (rule arctan_lbound, rule arctan_ubound)
  have pos: "0 < pi" by (rule pi_gt_zero)
  consider "0 < x" | "x < 0" "0 \<le> y" | "x < 0" "y < 0" | "x = 0"
    by linarith
  then show ?thesis
  proof cases
    case 1
    then have "arctan2 y x = arctan (y / x)" by (simp add: arctan2_def)
    then show ?thesis using lb [of "y / x"] ub [of "y / x"] pos by linarith
  next
    case 2
    then have "y / x \<le> 0" by (simp add: divide_nonneg_neg)
    then have "arctan (y / x) \<le> 0" by (simp add: arctan_le_zero_iff)
    moreover have "arctan2 y x = arctan (y / x) + pi" using 2 by (simp add: arctan2_def)
    ultimately show ?thesis using lb [of "y / x"] pos by linarith
  next
    case 3
    then have "0 < y / x" by (simp add: divide_neg_neg)
    then have "0 < arctan (y / x)" by (simp add: zero_less_arctan_iff)
    moreover have "arctan2 y x = arctan (y / x) - pi" using 3 by (simp add: arctan2_def)
    ultimately show ?thesis using ub [of "y / x"] pos by linarith
  next
    case 4
    then have "arctan2 y x = pi / 2 \<or> arctan2 y x = - (pi / 2) \<or> arctan2 y x = 0"
      by (simp add: arctan2_def)
    then show ?thesis using pos by linarith
  qed
qed

lemma spherical_map_spec:
  "spherical_map vec_rot H W =
     (map (\<lambda>v. spec_src_x (spec_u (spec_lon (v ! 0) (v ! 2))) W) vec_rot,
      map (\<lambda>v. spec_src_y (spec_v (spec_lat (v ! 1))) H) vec_rot)"
  by (simp add: spherical_map_def spec_src_x_def spec_src_y_def spec_u_def spec_v_def
      spec_lon_def spec_lat_def comp_def)

lemma spec_src_x_range:
  assumes "1 \<le> W"
  shows "0 \<le> spec_src_x (spec_u (spec_lon x z)) W \<and>
         spec_src_x (spec_u (spec_lon x z)) W \<le> of_int W - 1"
proof -
  define u where "u = spec_u (spec_lon x z)"
  have pos: "0 < pi" by (rule pi_gt_zero)
  have b: "- pi < arctan2 x z" "arctan2 x z \<le> pi"
    using arctan2_bounds by blast+
  have u0: "0 \<le> u"
    unfolding u_def spec_u_def spec_lon_def using b pos by simp
  have u1: "u \<le> 1"
    unfolding u_def spec_u_def spec_lon_def using b pos by simp
  have w: "0 \<le> (of_int W :: real) - 1" using assms by simp
  have "0 \<le> u * (of_int W - 1)" using u0 w by simp
  moreover have "u * (of_int W - 1) \<le> 1 * (of_int W - 1)"
    using u1 w by (rule mult_right_mono)
  ultimately show ?thesis
    by (simp add: spec_src_x_def u_def)
qed

text \<open>
  C6. For a rotated ray \<open>(x, y, z)\<close> the mapper of lines 92 to 97 computes
  \<open>lon = atan2(x, z)\<close>, \<open>lat = asin(y)\<close>, \<open>u = (lon + \<pi>) / (2\<pi>)\<close>,
  \<open>v = (\<pi>/2 - lat) / \<pi>\<close>, \<open>src_x = u \<cdot> (panoramaWidth - 1)\<close> and
  \<open>src_y = v \<cdot> (panoramaHeight - 1)\<close>, for one ray and for every ray of a list; for a
  panorama of width at least 1 every \<open>src_x\<close> lies in \<open>[0, panoramaWidth - 1]\<close>.
\<close>

theorem spherical_map_formula_and_range:
  "spherical_map [[x, y, z]] panoramaHeight panoramaWidth =
     ([spec_src_x (spec_u (spec_lon x z)) panoramaWidth],
      [spec_src_y (spec_v (spec_lat y)) panoramaHeight])
   \<and> spherical_map vec_rot panoramaHeight panoramaWidth =
     (map (\<lambda>v. spec_src_x (spec_u (spec_lon (v ! 0) (v ! 2))) panoramaWidth) vec_rot,
      map (\<lambda>v. spec_src_y (spec_v (spec_lat (v ! 1))) panoramaHeight) vec_rot)
   \<and> (1 \<le> panoramaWidth \<longrightarrow>
        list_all (\<lambda>src_x. 0 \<le> src_x \<and> src_x \<le> of_int panoramaWidth - 1)
          (fst (spherical_map vec_rot panoramaHeight panoramaWidth)))"
  by (simp add: spherical_map_spec list_all_iff spec_src_x_range)

theorem spherical_map_formula_and_range_witness:
  "(1::int) \<le> 5
   \<and> spherical_map [[0, 0, 1]] 3 5 = ([2], [1])
   \<and> list_all (\<lambda>src_x. 0 \<le> src_x \<and> src_x \<le> of_int 5 - 1)
        (fst (spherical_map [[0, 0, 1]] 3 5))"
  using spherical_map_formula_and_range [of 0 0 1 3 5 "[[0, 0, 1]]"]
  by (simp add: spec_src_x_def spec_src_y_def spec_u_def spec_v_def spec_lon_def
      spec_lat_def arctan2_def)

section \<open>Properties of the resampler\<close>




lemma sample_integer_row:
  "sample cast src bm x (of_int r) =
     map (\<lambda>k. cast ((1 - (x - of_int \<lfloor>x\<rfloor>)) * (fetch src bm \<lfloor>x\<rfloor> r ! k)
                    + (x - of_int \<lfloor>x\<rfloor>) * (fetch src bm (\<lfloor>x\<rfloor> + 1) r ! k)))
       [0..<length (fetch src bm \<lfloor>x\<rfloor> r)]"
  by (simp add: sample_def Let_def)



section \<open>Properties of the ray grid\<close>

lemma linspace_grid:
  "0 \<le> fs \<Longrightarrow> linspace (- 1) 1 fs = Inr (map (grid_coord (nat fs)) [0..<nat fs])"
  by (auto simp: linspace_def grid_coord_def)

lemma meshgrid_tab:
  "meshgrid (map X [0..<n]) (map Y [0..<m]) = (tab m n (\<lambda>r c. X c), tab m n (\<lambda>r c. Y r))"
  by (simp add: meshgrid_def tab_def comp_def)

lemma ew1_tab: "ew1 f (tab n m A) = tab n m (\<lambda>r c. f (A r c))"
  by (simp add: ew1_def tab_def comp_def)

lemma ew2_tab: "ew2 f (tab n m A) (tab n m B) = tab n m (\<lambda>r c. f (A r c) (B r c))"
  by (simp add: ew2_def tab_def map2_map_map)

lemma ones_like_tab: "ones_like (tab n m A) = tab n m (\<lambda>r c. 1)"
  by (simp add: ones_like_def tab_def comp_def)

lemma map2_zip3:
  "map2 f (map A xs) (zip (map B xs) (map C xs)) = map (\<lambda>x. f (A x) (B x, C x)) xs"
  by (induction xs) auto

lemma stack3_tab:
  "stack3 (tab n m A) (tab n m B) (tab n m C) = tab n m (\<lambda>r c. [A r c, B r c, C r c])"
  by (simp add: stack3_def tab_def map2_zip3)

lemma concat_tab:
  "concat (tab n m F) = map (\<lambda>k. F (k div m) (k mod m)) [0..<n * m]"
proof (induction n)
  case 0
  show ?case by (simp add: tab_def)
next
  case (Suc n)
  have "[n * m..<m + n * m] = map (\<lambda>i. i + n * m) [0..<m]"
    by (rule map_add_upt [symmetric])
  then have "map (\<lambda>k. F (k div m) (k mod m)) [n * m..<m + n * m] =
        map (\<lambda>j. F ((j + n * m) div m) ((j + n * m) mod m)) [0..<m]"
    by (simp only: map_map comp_def)
  also have "\<dots> = map (\<lambda>c. F n c) [0..<m]"
    by (rule map_cong) auto
  finally have last: "map (\<lambda>k. F (k div m) (k mod m)) [n * m..<m + n * m] = map (\<lambda>c. F n c) [0..<m]" .
  have "[0..<Suc n * m] = [0..<n * m] @ [n * m..<m + n * m]"
    using upt_add_eq_append [of 0 "n * m" m] by (simp add: add.commute)
  then have "map (\<lambda>k. F (k div m) (k mod m)) [0..<Suc n * m] =
      map (\<lambda>k. F (k div m) (k mod m)) [0..<n * m] @ map (\<lambda>c. F n c) [0..<m]"
    by (simp only: map_append last)
  moreover have "concat (tab (Suc n) m F) = concat (tab n m F) @ map (\<lambda>c. F n c) [0..<m]"
    by (simp add: tab_def)
  ultimately show ?case
    using Suc by simp
qed

lemma theta45: "tan (deg2rad (fov / 2)) = 1"
proof -
  have "deg2rad (fov / 2) = pi / 4" by (simp add: deg2rad_def fov_def)
  then show ?thesis by (simp only: tan_45)
qed


lemma normalized_grid_tab:
  assumes "0 \<le> fs"
  shows "normalized_grid fs =
     Inr (tab (nat fs) (nat fs) (\<lambda>r c. spec_ray (nat fs) r c ! 0),
          tab (nat fs) (nat fs) (\<lambda>r c. spec_ray (nat fs) r c ! 1),
          tab (nat fs) (nat fs) (\<lambda>r c. spec_ray (nat fs) r c ! 2))"
proof -
  let ?n = "nat fs"
  let ?X = "grid_coord ?n"
  have neg: "map uminus (map ?X [0..<?n]) = map (\<lambda>r. - ?X r) [0..<?n]"
    by (simp add: comp_def)
  have mg: "meshgrid (map ?X [0..<?n]) (map uminus (map ?X [0..<?n])) =
      (tab ?n ?n (\<lambda>r c. ?X c), tab ?n ?n (\<lambda>r c. - ?X r))"
    unfolding neg by (rule meshgrid_tab)
  show ?thesis
    unfolding normalized_grid_def linspace_grid [OF assms] bind_err_simps mg
    by (simp add: ew1_tab ew2_tab ones_like_tab spec_ray_def unit_ray_def)
qed

lemma fov_rescale_id:
  "fov_rescale (tab n m A, tab n m B, tab n m C) = (tab n m A, tab n m B, tab n m C)"
  by (simp add: fov_rescale_def theta45 ew1_tab ew2_tab ones_like_tab)

lemma spec_ray3: "[spec_ray n r c ! 0, spec_ray n r c ! Suc 0, spec_ray n r c ! 2] = spec_ray n r c"
  by (simp add: spec_ray_def unit_ray_def)

lemma ray_grid_spec:
  assumes "0 \<le> fs"
  shows "ray_grid fs = Inr (map (\<lambda>k. spec_ray (nat fs) (k div nat fs) (k mod nat fs)) [0..<nat fs * nat fs])"
  unfolding ray_grid_def normalized_grid_tab [OF assms] bind_err_simps fov_rescale_id
  by (simp add: ray_rows_def reshape_rows3_def stack3_tab concat_tab spec_ray3)

lemma ray_grid_neg: "fs < 0 \<Longrightarrow> ray_grid fs = Inl ValueError"
  by (simp add: ray_grid_def normalized_grid_def linspace_def)

lemma spec_ray_unit:
  "(spec_ray n r c ! 0)\<^sup>2 + (spec_ray n r c ! 1)\<^sup>2 + (spec_ray n r c ! 2)\<^sup>2 = 1"
proof -
  define x where "x = grid_coord n c"
  define y where "y = - grid_coord n r"
  have pos: "0 < x\<^sup>2 + y\<^sup>2 + 1"
    by (smt (verit) zero_le_power2)
  have "(x / sqrt (x\<^sup>2 + y\<^sup>2 + 1))\<^sup>2 + (y / sqrt (x\<^sup>2 + y\<^sup>2 + 1))\<^sup>2 + (1 / sqrt (x\<^sup>2 + y\<^sup>2 + 1))\<^sup>2
        = (x\<^sup>2 + y\<^sup>2 + 1) / (x\<^sup>2 + y\<^sup>2 + 1)"
    using pos by (simp add: power_divide add_divide_distrib [symmetric])
  also have "\<dots> = 1" using pos by simp
  finally show ?thesis
    by (simp add: spec_ray_def unit_ray_def x_def y_def)
qed



section \<open>Properties of the projection pipeline\<close>

lemma take_drop_upt:
  assumes "r < n"
  shows "take n (drop (r * n) [0..<n * n]) = map (\<lambda>c. r * n + c) [0..<n]"
proof -
  have le: "r * n + n \<le> n * n"
  proof -
    have "Suc r * n \<le> n * n" using assms by (intro mult_le_mono1) simp
    then show ?thesis by (simp add: add.commute)
  qed
  have "drop (r * n) [0..<n * n] = [r * n..<n * n]" by simp
  moreover have "take n [r * n..<n * n] = [r * n..<r * n + n]"
    using le by (simp add: take_upt)
  moreover have "[r * n..<r * n + n] = map (\<lambda>c. r * n + c) [0..<n]"
    using map_add_upt [of "r * n" n] by (simp add: add.commute)
  ultimately show ?thesis by simp
qed

lemma reshape2_tab:
  "reshape2 (map F [0..<n * n]) (int n) (int n) = Inr (tab n n (\<lambda>r c. F (r * n + c)))"
proof -
  have "take n (drop (r * n) (map F [0..<n * n])) = map (\<lambda>c. F (r * n + c)) [0..<n]"
    if "r < n" for r
  proof -
    have "take n (drop (r * n) (map F [0..<n * n])) = map F (take n (drop (r * n) [0..<n * n]))"
      by (simp only: take_map drop_map)
    then show ?thesis by (simp only: take_drop_upt [OF that] map_map comp_def)
  qed
  then have "map (\<lambda>i. take n (drop (i * n) (map F [0..<n * n]))) [0..<n] = tab n n (\<lambda>r c. F (r * n + c))"
    unfolding tab_def by (intro map_cong refl) simp
  then show ?thesis
    by (simp add: reshape2_def)
qed

lemma spec_ray_len: "length (spec_ray n r c) = 3"
  by (simp add: spec_ray_def unit_ray_def)

lemma compose_rotation_nonempty:
  "matmul (matmul (R_roll roll) (R_pitch pitch)) (R_yaw yaw) \<noteq> []"
  by (simp add: matmul_def R_roll_def)

lemma projection_maps_tab_nat:
  "projection_maps img (int n) yaw pitch roll =
     Inr (tab n n (map_x_at img n yaw pitch roll), tab n n (map_y_at img n yaw pitch roll))"
proof -
  let ?R = "rot yaw pitch roll"
  let ?rows = "map (\<lambda>k. spec_ray n (k div n) (k mod n)) [0..<n * n]"
  have rg: "ray_grid (int n) = Inr ?rows"
    using ray_grid_spec [of "int n"] by simp
  have r3: "list_all (\<lambda>v. length v = 3) ?rows"
    by (simp add: list_all_iff spec_ray_len)
  have ar: "apply_rotation ?R ?rows = map (mat_vec ?R) ?rows"
    by (rule apply_rotation_rows [OF r3]) (simp add: rot_def compose_rotation_nonempty)
  have dm: "(r * n + c) div n = r \<and> (r * n + c) mod n = c" if "c < n" for r c
    using that by simp
  have tabs: "tab n n (\<lambda>r c. G (spec_ray n ((r * n + c) div n) ((r * n + c) mod n)))
       = tab n n (\<lambda>r c. G (spec_ray n r c))" for G :: "real list \<Rightarrow> real"
    unfolding tab_def by (intro map_cong refl) (simp add: dm)
  show ?thesis
    unfolding projection_maps_def rg compose_rotation_eq bind_err_simps
      rot_def [symmetric] Let_def ar spherical_map_spec map_map comp_def prod.case
      reshape2_tab map_x_at_def [abs_def] map_y_at_def [abs_def]
    by (simp only: tabs [of "\<lambda>v. spec_src_x (spec_u (spec_lon (mat_vec ?R v ! 0) (mat_vec ?R v ! 2))) (int (ncols img))"]
           tabs [of "\<lambda>v. spec_src_y (spec_v (spec_lat (mat_vec ?R v ! 1))) (int (length img))"])
qed



lemma map2_tab:
  "map2 (map2 f) (tab n m A) (tab n m B) = tab n m (\<lambda>r c. f (A r c) (B r c))"
  by (simp add: tab_def map2_map_map)

lemma tab_nonempty: "0 < n \<Longrightarrow> tab n n A \<noteq> [] \<and> ncols (tab n n A) = n"
proof -
  assume n: "0 < n"
  then have "[0..<n] = 0 # [1..<n]" by (simp add: upt_conv_Cons)
  then show ?thesis using n by (simp add: tab_def ncols_def)
qed

lemma perspective_projection_neg:
  "face_size < 0 \<Longrightarrow> perspective_projection cast buf img face_size yaw pitch roll = Inl ValueError"
  by (simp add: perspective_projection_def projection_maps_def ray_grid_neg)

lemma perspective_projection_maps:
  "perspective_projection cast buf img (int n) yaw pitch roll =
     cv2_remap cast buf img (tab n n (map_x_at img n yaw pitch roll))
       (tab n n (map_y_at img n yaw pitch roll)) BORDER_WRAP"
  by (simp add: perspective_projection_def projection_maps_tab_nat)

lemma tab_length: "length (tab n m A) = n"
  by (simp add: tab_def)

lemma cv2_remap_tab:
  assumes "0 < n" "n < SHRT_MAX"
  shows "cv2_remap cast buf src (tab n n A) (tab n n B) bm =
     (if length src < SHRT_MAX \<and> ncols src < SHRT_MAX
      then (if src = [] \<or> ncols src = 0 then Inr (tab n n buf)
            else Inr (tab n n (\<lambda>r c. sample cast src bm (A r c) (B r c))))
      else Inl Cv2Error)"
  using assms tab_nonempty [OF assms(1), of A]
  by (simp add: cv2_remap_def map2_tab tab_length) (simp add: tab_def)

lemma perspective_projection_face:
  assumes "0 < n" "n < SHRT_MAX" "img \<noteq> []" "ncols img \<noteq> 0" "remap_size_ok img"
  shows "perspective_projection cast buf img (int n) yaw pitch roll =
     Inr (face_image cast img n yaw pitch roll)"
  using assms(3-5)
  by (simp add: perspective_projection_maps cv2_remap_tab [OF assms(1,2)] face_image_def
      remap_size_ok_def)


lemma faces_loop_unrolled:
  "faces_loop cast bufs img face_size [''front'', ''right'', ''back'', ''left''] [] =
     bind_err (perspective_projection cast (bufs 0) img face_size 0 0 0) (\<lambda>f1.
     bind_err (perspective_projection cast (bufs 1) img face_size 90 0 0) (\<lambda>f2.
     bind_err (perspective_projection cast (bufs 2) img face_size 180 0 0) (\<lambda>f3.
     bind_err (perspective_projection cast (bufs 3) img face_size (- 90) 0 0) (\<lambda>f4.
       Inr [f1, f2, f3, f4]))))"
  by (simp add: face_angles_def numeral_2_eq_2 numeral_3_eq_3)

lemma equirectangular_to_cubemap_sequence:
  "equirectangular_to_cubemap cast bufs img face_size =
     sequence_err [perspective_projection cast (bufs 0) img face_size 0 0 0,
                   perspective_projection cast (bufs 1) img face_size 90 0 0,
                   perspective_projection cast (bufs 2) img face_size 180 0 0,
                   perspective_projection cast (bufs 3) img face_size (- 90) 0 0]"
  unfolding equirectangular_to_cubemap_def faces_loop_unrolled
  by (cases "perspective_projection cast (bufs 0) img face_size 0 0 0";
      cases "perspective_projection cast (bufs 1) img face_size 90 0 0";
      cases "perspective_projection cast (bufs 2) img face_size 180 0 0";
      cases "perspective_projection cast (bufs 3) img face_size (- 90) 0 0") simp_all

lemma equirectangular_to_cubemap_faces:
  assumes "0 < n" "n < SHRT_MAX" "img \<noteq> []" "ncols img \<noteq> 0" "remap_size_ok img"
  shows "equirectangular_to_cubemap cast bufs img (int n) =
     Inr [face_image cast img n 0 0 0, face_image cast img n 90 0 0,
          face_image cast img n 180 0 0, face_image cast img n (- 90) 0 0]"
  by (simp add: equirectangular_to_cubemap_sequence perspective_projection_face [OF assms])

lemma fetch_wrap_length:
  assumes "wf_image img"
  shows "length (fetch img BORDER_WRAP c r) = nchannels img"
proof -
  let ?H = "int (length img)" and ?W = "int (ncols img)"
  have H: "0 < ?H" and W: "0 < ?W"
    using assms by (simp_all add: wf_image_def)
  have r: "nat (r mod ?H) < length img"
    using H by (simp add: nat_less_iff)
  have c: "nat (c mod ?W) < ncols img"
    using W by (simp add: nat_less_iff)
  have row: "length (img ! nat (r mod ?H)) = ncols img
      \<and> list_all (\<lambda>p. length p = nchannels img) (img ! nat (r mod ?H))"
    using assms r by (simp add: wf_image_def has_shape_def list_all_length)
  then have "length (img ! nat (r mod ?H) ! nat (c mod ?W)) = nchannels img"
    using c by (simp add: list_all_length)
  then show ?thesis by (simp add: fetch_def)
qed

lemma sample_wrap_length:
  "wf_image img \<Longrightarrow> length (sample cast img BORDER_WRAP x y) = nchannels img"
  by (simp add: sample_def Let_def fetch_wrap_length)

lemma face_image_shape:
  "wf_image img \<Longrightarrow> has_shape (face_image cast img n yaw pitch roll) n n (nchannels img)"
  by (simp add: has_shape_def face_image_def tab_def list_all_iff sample_wrap_length)




section \<open>The vertical coordinate stays inside the panorama\<close>

lemma mat_vec3:
  "mat_vec [[a, b, c], [d, e, f], [g, h, i]] [x, y, z] =
     [a * x + b * y + c * z, d * x + e * y + f * z, g * x + h * y + i * z]"
  by (simp add: mat_vec_def)









section \<open>The claims about the pipeline\<close>

text \<open>
  C2, as the code has it. The engine has no check of degenerate geometry. A negative
  \<open>faceSize\<close> is refused by \<^verbatim>\<open>np.linspace\<close> with a \<open>ValueError\<close>, before anything
  else is computed. For every \<open>faceSize \<ge> 0\<close> and every panorama, an empty one
  included, the ray grid, the rotation and the two coordinate maps are computed without
  an error, and the result of the engine is whatever the resampler returns for these
  maps.
\<close>

theorem no_degenerate_geometry_check:
  "(face_size < 0 \<longrightarrow>
      perspective_projection cast buf img face_size yaw pitch roll = Inl ValueError
      \<and> equirectangular_to_cubemap cast bufs img face_size = Inl ValueError)
   \<and> (0 \<le> face_size \<longrightarrow>
      projection_maps img face_size yaw pitch roll =
        Inr (tab (nat face_size) (nat face_size) (map_x_at img (nat face_size) yaw pitch roll),
             tab (nat face_size) (nat face_size) (map_y_at img (nat face_size) yaw pitch roll))
      \<and> perspective_projection cast buf img face_size yaw pitch roll =
        cv2_remap cast buf img
          (tab (nat face_size) (nat face_size) (map_x_at img (nat face_size) yaw pitch roll))
          (tab (nat face_size) (nat face_size) (map_y_at img (nat face_size) yaw pitch roll))
          BORDER_WRAP)"
proof -
  have neg: "perspective_projection cast buf img face_size yaw pitch roll = Inl ValueError
      \<and> equirectangular_to_cubemap cast bufs img face_size = Inl ValueError" if "face_size < 0"
    using that
    by (simp add: equirectangular_to_cubemap_sequence perspective_projection_neg)
  have nonneg: "projection_maps img face_size yaw pitch roll =
        Inr (tab (nat face_size) (nat face_size) (map_x_at img (nat face_size) yaw pitch roll),
             tab (nat face_size) (nat face_size) (map_y_at img (nat face_size) yaw pitch roll))
      \<and> perspective_projection cast buf img face_size yaw pitch roll =
        cv2_remap cast buf img
          (tab (nat face_size) (nat face_size) (map_x_at img (nat face_size) yaw pitch roll))
          (tab (nat face_size) (nat face_size) (map_y_at img (nat face_size) yaw pitch roll))
          BORDER_WRAP" if "0 \<le> face_size"
  proof -
    have fs: "face_size = int (nat face_size)" using that by simp
    show ?thesis
      using projection_maps_tab_nat [of img "nat face_size" yaw pitch roll]
        perspective_projection_maps [of cast buf img "nat face_size" yaw pitch roll]
      unfolding fs [symmetric] by simp
  qed
  show ?thesis using neg nonneg by blast
qed

theorem no_degenerate_geometry_check_witness:
  "(- 1 :: int) < 0 \<and> (0 :: int) \<le> 0
   \<and> perspective_projection id (buffer_of []) [] (- 1) 0 0 0 = Inl ValueError
   \<and> projection_maps [] 0 0 0 0 = Inr ([], [])
   \<and> perspective_projection id (buffer_of []) [] 0 0 0 0 =
       cv2_remap id (buffer_of []) [] [] [] BORDER_WRAP"
  using no_degenerate_geometry_check
      [where face_size = "- 1" and img = "[]" and cast = id and buf = "buffer_of []"
        and yaw = 0 and pitch = 0 and roll = 0]
    no_degenerate_geometry_check
      [where face_size = 0 and img = "[]" and cast = id and buf = "buffer_of []"
        and yaw = 0 and pitch = 0 and roll = 0]
  by (simp add: tab_def)

text \<open>
  The claim C2 fails for \<open>faceSize = 0\<close> on a panorama of one pixel: nothing is
  rejected at the boundary, the (empty) coordinate maps are computed and the resampler
  is called with them.
\<close>

theorem face_size_zero_counterexample:
  "projection_maps [[[0]]] 0 0 0 0 = Inr ([], [])
   \<and> perspective_projection id (buffer_of []) [[[0]]] 0 0 0 0 =
       cv2_remap id (buffer_of []) [[[0]]] [] [] BORDER_WRAP"
  using projection_maps_tab_nat [of "[[[0]]]" 0 0 0 0]
    perspective_projection_maps [of id "buffer_of []" "[[[0]]]" 0 0 0 0]
  by (simp add: tab_def)






lemma upt1: "[0..<Suc 0] = [0]"
  by simp

lemma ray_grid_one: "ray_grid 1 = Inr [[- (1 / sqrt 3), 1 / sqrt 3, 1 / sqrt 3]]"
  using ray_grid_spec [of 1]
  by (simp add: spec_ray_def unit_ray_def grid_coord_def)

lemma tab_one: "tab (Suc 0) (Suc 0) A = [[A 0 0]]"
  by (simp add: tab_def)

lemma spec_ray_one: "spec_ray (Suc 0) 0 0 = [- (1 / sqrt 3), 1 / sqrt 3, 1 / sqrt 3]"
  by (simp add: spec_ray_def unit_ray_def grid_coord_def)

lemma rot_nonempty: "rot yaw pitch roll \<noteq> []"
  by (simp add: rot_def compose_rotation_nonempty)

lemma apply_rotation_one:
  "length v = 3 \<Longrightarrow> apply_rotation (rot yaw pitch roll) [v] = [mat_vec (rot yaw pitch roll) v]"
  using apply_rotation_rows [of "[v]" "rot yaw pitch roll"] rot_nonempty by simp

lemma arctan_minus_one: "arctan (- 1) = - (pi / 4)"
  by (simp add: arctan_minus arctan_one)

lemma corner_ray_column:
  "spec_src_x (spec_u (spec_lon (- (1 / sqrt 3)) (1 / sqrt 3))) 9 = 3"
proof -
  have "spec_lon (- (1 / sqrt 3)) (1 / sqrt 3) = - (pi / 4)"
    by (simp add: spec_lon_def arctan2_def arctan_minus_one)
  then show ?thesis
    by (simp add: spec_src_x_def spec_u_def)
qed

lemma rot_zero: "rot 0 0 0 = identity3"
  by (simp add: rot_def deg2rad_def R_yaw_def R_pitch_def R_roll_def matmul3 identity3_def)

text \<open>
  C3, as the code has it. For \<open>faceSize = 1\<close> the ray grid is the single ray
  \<open>(-1, 1, 1) / \<surd>3\<close>, the ray through the top left corner of the face, since a
  \<^verbatim>\<open>linspace\<close> of one point is its start \<open>-1\<close>. On a non-empty panorama with fewer
  than 32767 rows and columns the pipeline does not fail and returns one pixel: the
  sample at the position this corner ray is mapped to after the rotation.
\<close>

theorem face_size_one_single_corner_ray:
  "ray_grid 1 = Inr [[- (1 / sqrt 3), 1 / sqrt 3, 1 / sqrt 3]]
   \<and> projection_maps img 1 yaw pitch roll =
       (case spherical_map
               (apply_rotation (rot yaw pitch roll) [[- (1 / sqrt 3), 1 / sqrt 3, 1 / sqrt 3]])
               (int (length img)) (int (ncols img)) of
          (src_x, src_y) \<Rightarrow> Inr ([src_x], [src_y]))
   \<and> (img \<noteq> [] \<and> ncols img \<noteq> 0 \<and> remap_size_ok img \<longrightarrow>
        perspective_projection cast buf img 1 yaw pitch roll =
          Inr [[sample cast img BORDER_WRAP (map_x_at img 1 yaw pitch roll 0 0)
                                             (map_y_at img 1 yaw pitch roll 0 0)]])"
proof -
  have maps: "projection_maps img 1 yaw pitch roll =
       (case spherical_map
               (apply_rotation (rot yaw pitch roll) [[- (1 / sqrt 3), 1 / sqrt 3, 1 / sqrt 3]])
               (int (length img)) (int (ncols img)) of
          (src_x, src_y) \<Rightarrow> Inr ([src_x], [src_y]))"
    using projection_maps_tab_nat [of img 1 yaw pitch roll]
    by (simp add: tab_one apply_rotation_one spherical_map_spec map_x_at_def map_y_at_def
        spec_ray_one)
  have face: "perspective_projection cast buf img 1 yaw pitch roll =
          Inr [[sample cast img BORDER_WRAP (map_x_at img 1 yaw pitch roll 0 0)
                                             (map_y_at img 1 yaw pitch roll 0 0)]]"
    if "img \<noteq> []" "ncols img \<noteq> 0" "remap_size_ok img"
    using perspective_projection_face [of 1 img cast buf yaw pitch roll] that
    by (simp add: face_image_def tab_one SHRT_MAX_def)
  show ?thesis using ray_grid_one maps face by blast
qed

text \<open>
  On a panorama of one row and nine columns, looking to the front: the pixel returned is
  the one of column 3, where the corner ray points, and not the one of the central
  column 4.
\<close>

theorem face_size_one_single_corner_ray_witness:
  "[[[0], [10], [20], [30], [40], [50], [60], [70], [80 :: real]]] \<noteq> []
   \<and> ncols [[[0], [10], [20], [30], [40], [50], [60], [70], [80 :: real]]] \<noteq> 0
   \<and> remap_size_ok [[[0], [10], [20], [30], [40], [50], [60], [70], [80]]]
   \<and> perspective_projection id (buffer_of [])
        [[[0], [10], [20], [30], [40], [50], [60], [70], [80]]] 1 0 0 0 = Inr [[[30]]]"
proof -
  let ?img = "[[[0], [10], [20], [30], [40], [50], [60], [70], [80 :: real]]]"
  have nc: "ncols ?img = 9" by (simp add: ncols_def)
  have ok: "?img \<noteq> [] \<and> ncols ?img \<noteq> 0 \<and> remap_size_ok ?img"
    by (simp add: nc remap_size_ok_def SHRT_MAX_def)
  have x: "map_x_at ?img 1 0 0 0 0 0 = 3"
    using corner_ray_column
    by (simp add: map_x_at_def rot_zero identity3_def mat_vec3 spec_ray_one nc)
  have y: "map_y_at ?img 1 0 0 0 0 0 = 0"
    by (simp add: map_y_at_def spec_src_y_def)
  have "sample id ?img BORDER_WRAP 3 0 = [30]"
    using sample_integer_row [of id ?img BORDER_WRAP 3 0]
    by (simp add: fetch_def nc)
  then show ?thesis
    using face_size_one_single_corner_ray
      [where img = ?img and cast = id and buf = "buffer_of []" and yaw = 0 and pitch = 0
        and roll = 0] ok x y
    by simp
qed

text \<open>
  The claim C3 fails: the only ray generated for \<open>faceSize = 1\<close> is not the central
  ray \<open>(0, 0, 1)\<close> of the face.
\<close>

theorem face_size_one_not_central_counterexample:
  "ray_grid 1 = Inr [[- (1 / sqrt 3), 1 / sqrt 3, 1 / sqrt 3]]
   \<and> ray_grid 1 \<noteq> Inr [[0, 0, 1]]"
  by (simp add: ray_grid_one)

lemma grid_coord_ends:
  assumes "2 \<le> n"
  shows "grid_coord n 0 = - 1 \<and> grid_coord n (n - 1) = 1"
proof -
  have nz: "real n - 1 \<noteq> 0" using assms by simp
  have "2 * (real n - 1) / (real n - 1) = 2"
    using nz by (rule nonzero_mult_div_cancel_right)
  then have key: "(2 * real n - 2) / (real n - 1) = 2"
    by (simp add: right_diff_distrib)
  have "real (n - 1) = real n - 1" using assms by (simp add: of_nat_diff)
  then have "grid_coord n (n - 1) = 1"
    using assms key by (simp add: grid_coord_def right_diff_distrib)
  then show ?thesis using assms by (simp add: grid_coord_def)
qed

text \<open>
  C7, as the code has it. For every \<open>faceSize = n \<ge> 1\<close> the generator produces exactly
  \<open>n\<^sup>2\<close> vectors, the same before and after the rescaling by \<open>tan 45\<degree> = 1\<close>, each of
  unit norm, in row-major order: the vector of row \<open>r\<close> and column \<open>c\<close> is the
  normalised \<open>(x\<^sub>c, - x\<^sub>r, 1)\<close>. For \<open>n \<ge> 2\<close> the coordinates \<open>x\<^sub>i = -1 + 2 i / (n - 1)\<close>
  are \<open>n\<close> evenly spaced points from \<open>-1\<close> to \<open>1\<close>, both endpoints included; for
  \<open>n = 1\<close> the only coordinate is \<open>-1\<close>, so the only grid point is \<open>(-1, 1)\<close>.
\<close>

theorem ray_grid_count_norm_order:
  assumes "1 \<le> face_size"
  shows "\<exists>g rays. normalized_grid face_size = Inr g
     \<and> ray_rows g = rays
     \<and> ray_grid face_size = Inr rays
     \<and> length rays = nat face_size * nat face_size
     \<and> list_all (\<lambda>v. length v = 3 \<and> (v ! 0)\<^sup>2 + (v ! 1)\<^sup>2 + (v ! 2)\<^sup>2 = 1) rays
     \<and> (\<forall>r < nat face_size. \<forall>c < nat face_size.
          rays ! (r * nat face_size + c) =
            unit_ray (grid_coord (nat face_size) c) (- grid_coord (nat face_size) r))
     \<and> (2 \<le> face_size \<longrightarrow>
          grid_coord (nat face_size) 0 = - 1
          \<and> grid_coord (nat face_size) (nat face_size - 1) = 1
          \<and> (\<forall>i. grid_coord (nat face_size) i = - 1 + 2 * real i / (real (nat face_size) - 1)))
     \<and> (face_size = 1 \<longrightarrow> grid_coord (nat face_size) 0 = - 1 \<and> rays = [unit_ray (- 1) 1])"
proof -
  let ?n = "nat face_size"
  let ?rays = "map (\<lambda>k. spec_ray ?n (k div ?n) (k mod ?n)) [0..<?n * ?n]"
  let ?g = "(tab ?n ?n (\<lambda>r c. spec_ray ?n r c ! 0),
             tab ?n ?n (\<lambda>r c. spec_ray ?n r c ! 1),
             tab ?n ?n (\<lambda>r c. spec_ray ?n r c ! 2))"
  have nn: "0 \<le> face_size" using assms by simp
  have g: "normalized_grid face_size = Inr ?g"
    by (rule normalized_grid_tab [OF nn])
  have rows: "ray_rows ?g = ?rays"
    by (simp add: ray_rows_def reshape_rows3_def stack3_tab concat_tab spec_ray3)
  have rg: "ray_grid face_size = Inr ?rays"
    by (rule ray_grid_spec [OF nn])
  have len: "length ?rays = ?n * ?n" by simp
  have unit: "list_all (\<lambda>v. length v = 3 \<and> (v ! 0)\<^sup>2 + (v ! 1)\<^sup>2 + (v ! 2)\<^sup>2 = 1) ?rays"
    using spec_ray_unit by (simp add: list_all_iff spec_ray_len)
  have order: "?rays ! (r * ?n + c) = unit_ray (grid_coord ?n c) (- grid_coord ?n r)"
    if "r < ?n" "c < ?n" for r c
  proof -
    have "r * ?n + c < ?n * ?n"
    proof -
      have "r * ?n + c < r * ?n + ?n" using that(2) by simp
      also have "\<dots> = Suc r * ?n" by simp
      also have "\<dots> \<le> ?n * ?n" using that(1) by (intro mult_le_mono1) simp
      finally show ?thesis .
    qed
    then show ?thesis using that(2) by (simp add: spec_ray_def)
  qed
  have two: "grid_coord ?n 0 = - 1 \<and> grid_coord ?n (?n - 1) = 1
      \<and> (\<forall>i. grid_coord ?n i = - 1 + 2 * real i / (real ?n - 1))" if "2 \<le> face_size"
  proof -
    have "2 \<le> ?n" using that by simp
    then show ?thesis using grid_coord_ends [of ?n] by (simp add: grid_coord_def)
  qed
  have one: "grid_coord ?n 0 = - 1 \<and> ?rays = [unit_ray (- 1) 1]" if "face_size = 1"
    using that by (simp add: spec_ray_def grid_coord_def)
  show ?thesis
  proof (intro exI [of _ ?g] exI [of _ ?rays] conjI)
    show "normalized_grid face_size = Inr ?g" by (rule g)
    show "ray_rows ?g = ?rays" by (rule rows)
    show "ray_grid face_size = Inr ?rays" by (rule rg)
    show "length ?rays = ?n * ?n" by (rule len)
    show "list_all (\<lambda>v. length v = 3 \<and> (v ! 0)\<^sup>2 + (v ! 1)\<^sup>2 + (v ! 2)\<^sup>2 = 1) ?rays"
      by (rule unit)
    show "\<forall>r < ?n. \<forall>c < ?n.
          ?rays ! (r * ?n + c) = unit_ray (grid_coord ?n c) (- grid_coord ?n r)"
      using order by blast
    show "2 \<le> face_size \<longrightarrow>
          grid_coord ?n 0 = - 1 \<and> grid_coord ?n (?n - 1) = 1
          \<and> (\<forall>i. grid_coord ?n i = - 1 + 2 * real i / (real ?n - 1))"
      using two by blast
    show "face_size = 1 \<longrightarrow> grid_coord ?n 0 = - 1 \<and> ?rays = [unit_ray (- 1) 1]"
      using one by blast
  qed
qed

theorem ray_grid_count_norm_order_witness:
  "(1 :: int) \<le> 2
   \<and> (\<exists>g rays. normalized_grid 2 = Inr g \<and> ray_rows g = rays \<and> ray_grid 2 = Inr rays
        \<and> length rays = 4
        \<and> list_all (\<lambda>v. length v = 3 \<and> (v ! 0)\<^sup>2 + (v ! 1)\<^sup>2 + (v ! 2)\<^sup>2 = 1) rays
        \<and> rays ! 1 = unit_ray 1 1
        \<and> grid_coord 2 0 = - 1 \<and> grid_coord 2 1 = 1)"
proof -
  obtain g rays where h: "normalized_grid 2 = Inr g" "ray_rows g = rays" "ray_grid 2 = Inr rays"
      "length rays = nat 2 * nat 2"
      "list_all (\<lambda>v. length v = 3 \<and> (v ! 0)\<^sup>2 + (v ! 1)\<^sup>2 + (v ! 2)\<^sup>2 = 1) rays"
      "\<forall>r < nat 2. \<forall>c < nat 2.
          rays ! (r * nat 2 + c) = unit_ray (grid_coord (nat 2) c) (- grid_coord (nat 2) r)"
      "(2 :: int) \<le> 2 \<longrightarrow> grid_coord (nat 2) 0 = - 1 \<and> grid_coord (nat 2) (nat 2 - 1) = 1
          \<and> (\<forall>i. grid_coord (nat 2) i = - 1 + 2 * real i / (real (nat 2) - 1))"
    using ray_grid_count_norm_order [of 2] by auto
  have "rays ! (0 * nat 2 + 1) = unit_ray (grid_coord (nat 2) 1) (- grid_coord (nat 2) 0)"
    using h(6) [rule_format, of 0 1] by simp
  then have "rays ! 1 = unit_ray 1 1"
    by (simp add: grid_coord_def)
  moreover have "grid_coord 2 0 = - 1 \<and> grid_coord 2 1 = 1"
    by (simp add: grid_coord_def)
  ultimately show ?thesis using h(1-5) by auto
qed

text \<open>
  The claim C7 fails for \<open>faceSize = 1\<close>: \<open>x\<close> is sampled at the single point \<open>-1\<close>,
  so the endpoint \<open>1\<close> is not among the samples.
\<close>

theorem linspace_one_point_counterexample:
  "linspace (- 1) 1 1 = Inr [- 1] \<and> (1 :: real) \<notin> set [- 1]"
  by (simp add: linspace_def)




section \<open>The claim about the vertical border\<close>





section \<open>The claim about the orchestrator\<close>

lemma process_loop_spec:
  assumes n: "0 < n" "n < SHRT_MAX"
    and ok: "\<And>p img. imread p = Some img \<Longrightarrow> img \<noteq> [] \<and> ncols img \<noteq> 0 \<and> remap_size_ok img"
  shows "process_loop cast bufs imread input_folder output_folder (int n) listing written =
     Inr (written @ concat (map (file_writes cast imread input_folder output_folder n) listing))"
proof (induction listing arbitrary: written)
  case Nil
  show ?case by simp
next
  case (Cons filename rest)
  show ?case
  proof (cases "endswith_any (lower filename) [''.jpg'', ''.jpeg'', ''.png'']")
    case False
    then show ?thesis by (simp add: Cons.IH file_writes_def)
  next
    case True
    note acc = this
    show ?thesis
    proof (cases "imread (path_join input_folder filename)")
      case None
      then show ?thesis using acc by (simp add: Cons.IH file_writes_def)
    next
      case (Some img)
      have cube: "equirectangular_to_cubemap cast b img (int n) =
          Inr [face_image cast img n 0 0 0, face_image cast img n 90 0 0,
               face_image cast img n 180 0 0, face_image cast img n (- 90) 0 0]" for b
        using ok [OF Some] n by (intro equirectangular_to_cubemap_faces) simp_all
      show ?thesis
        using acc Some
        by (simp add: Cons.IH file_writes_def cube canonical_faces_def Let_def)
    qed
  qed
qed

lemma wf_image_nonempty: "wf_image img \<Longrightarrow> img \<noteq> [] \<and> ncols img \<noteq> 0"
  by (simp add: wf_image_def)

text \<open>
  C4, as the code has it. For a face size from 1 to 32766 and a decoder that yields
  well-formed images with fewer than 32767 rows and columns (the sizes \<^verbatim>\<open>cv2.remap\<close>
  accepts), the orchestrator writes, for every directory entry whose lower-cased name
  ends in \<open>.jpg\<close>, \<open>.jpeg\<close> or \<open>.png\<close> and that decodes, four images in the order front,
  right, back, left, each \<open>faceSize \<times> faceSize\<close> with the channel count of the input,
  under the name \<open><base>_<face>.jpg\<close>: the extension written is always \<open>.jpg\<close>, whatever
  the extension of the input. Other entries are skipped.
\<close>

theorem process_panoramas_writes:
  assumes "1 \<le> face_size" "face_size < int SHRT_MAX"
    and "\<And>p img. imread p = Some img \<Longrightarrow> wf_image img \<and> remap_size_ok img"
  shows "process_panoramas cast bufs imread listing input_folder output_folder face_size =
      Inr (concat (map (file_writes cast imread input_folder output_folder (nat face_size)) listing))
    \<and> (imread p = Some img \<longrightarrow>
         equirectangular_to_cubemap cast bufs' img face_size =
           Inr (map (\<lambda>(face, yaw, pitch, roll). face_image cast img (nat face_size) yaw pitch roll)
                  canonical_faces)
         \<and> list_all (\<lambda>(face, yaw, pitch, roll).
               has_shape (face_image cast img (nat face_size) yaw pitch roll)
                 (nat face_size) (nat face_size) (nchannels img)) canonical_faces)"
proof -
  have fs: "face_size = int (nat face_size)" and n: "0 < nat face_size" "nat face_size < SHRT_MAX"
    using assms(1,2) by simp_all
  have ok: "img \<noteq> [] \<and> ncols img \<noteq> 0 \<and> remap_size_ok img" if "imread p = Some img" for p img
    using assms(3) [OF that] wf_image_nonempty by blast
  have a: "process_panoramas cast bufs imread listing input_folder output_folder face_size =
      Inr (concat (map (file_writes cast imread input_folder output_folder (nat face_size)) listing))"
    unfolding process_panoramas_def
    using process_loop_spec [where imread = imread and written = "[]", OF n ok] fs
    by simp
  have b: "equirectangular_to_cubemap cast bufs' img face_size =
           Inr (map (\<lambda>(face, yaw, pitch, roll). face_image cast img (nat face_size) yaw pitch roll)
                  canonical_faces)
         \<and> list_all (\<lambda>(face, yaw, pitch, roll).
               has_shape (face_image cast img (nat face_size) yaw pitch roll)
                 (nat face_size) (nat face_size) (nchannels img)) canonical_faces"
    if "imread p = Some img"
  proof -
    have wf: "wf_image img" using assms(3) [OF that] by simp
    have "equirectangular_to_cubemap cast bufs' img (int (nat face_size)) =
          Inr [face_image cast img (nat face_size) 0 0 0, face_image cast img (nat face_size) 90 0 0,
               face_image cast img (nat face_size) 180 0 0,
               face_image cast img (nat face_size) (- 90) 0 0]"
      using ok [OF that] n by (intro equirectangular_to_cubemap_faces) simp_all
    then show ?thesis
      using fs by (simp add: canonical_faces_def face_image_shape [OF wf])
  qed
  show ?thesis using a b by blast
qed

theorem process_panoramas_writes_witness:
  "(1 :: int) \<le> 1 \<and> (1 :: int) < int SHRT_MAX
   \<and> wf_image [[[5, 6, 7]]] \<and> remap_size_ok [[[5, 6, 7]]]
   \<and> [''in/a.png'' \<mapsto> [[[5, 6, 7 :: real]]]] ''in/a.png'' = Some [[[5, 6, 7]]]
   \<and> process_panoramas id (buffers_of []) [''in/a.png'' \<mapsto> [[[5, 6, 7]]]]
        [''a.png'', ''notes.txt''] ''in'' ''out'' 1 =
       Inr [(''out/a_front.jpg'', face_image id [[[5, 6, 7]]] 1 0 0 0),
            (''out/a_right.jpg'', face_image id [[[5, 6, 7]]] 1 90 0 0),
            (''out/a_back.jpg'', face_image id [[[5, 6, 7]]] 1 180 0 0),
            (''out/a_left.jpg'', face_image id [[[5, 6, 7]]] 1 (- 90) 0 0)]
   \<and> has_shape (face_image id [[[5, 6, 7]]] 1 0 0 0) 1 1 3"
proof -
  let ?imread = "[''in/a.png'' \<mapsto> [[[5, 6, 7 :: real]]]]"
  have wf: "wf_image img \<and> remap_size_ok img" if "?imread p = Some img" for p img
    using that
    by (auto simp: wf_image_def has_shape_def ncols_def nchannels_def remap_size_ok_def
        SHRT_MAX_def split: if_splits)
  have one: "(1 :: int) \<le> 1" "(1 :: int) < int SHRT_MAX" by (simp_all add: SHRT_MAX_def)
  have "nchannels [[[5, 6, 7 :: real]]] = 3" by (simp add: nchannels_def)
  then show ?thesis
    using process_panoramas_writes
        [where face_size = 1 and imread = ?imread and listing = "[''a.png'', ''notes.txt'']"
          and input_folder = "''in''" and output_folder = "''out''" and p = "''in/a.png''"
          and img = "[[[5, 6, 7]]]" and cast = id and bufs = "buffers_of []"
          and bufs' = "buffers_of []", OF one wf]
      wf [of "''in/a.png''" "[[[5, 6, 7]]]"] one
    by (simp add: file_writes_def endswith_any_def endswith_def lower_def lower_char_def
        path_join_def startswith_def splitext_def rfind_def canonical_faces_def Let_def)
qed

text \<open>
  The claim C4 fails on an input named \<open>b.png\<close>: its extension is \<open>.png\<close>, and the four
  faces are written under names that end in \<open>.jpg\<close>.
\<close>

theorem png_written_as_jpg_counterexample:
  "snd (splitext ''b.png'') = ''.png''
   \<and> process_panoramas id (buffers_of []) [''in/b.png'' \<mapsto> [[[1]]]] [''b.png''] ''in'' ''out'' 1 =
       Inr [(''out/b_front.jpg'', face_image id [[[1]]] 1 0 0 0),
            (''out/b_right.jpg'', face_image id [[[1]]] 1 90 0 0),
            (''out/b_back.jpg'', face_image id [[[1]]] 1 180 0 0),
            (''out/b_left.jpg'', face_image id [[[1]]] 1 (- 90) 0 0)]"
proof -
  let ?imread = "[''in/b.png'' \<mapsto> [[[1 :: real]]]]"
  have ok: "img \<noteq> [] \<and> ncols img \<noteq> 0 \<and> remap_size_ok img" if "?imread p = Some img" for p img
    using that by (auto simp: ncols_def remap_size_ok_def SHRT_MAX_def split: if_splits)
  have one: "0 < (1 :: nat)" "(1 :: nat) < SHRT_MAX" by (simp_all add: SHRT_MAX_def)
  show ?thesis
    unfolding process_panoramas_def
    using process_loop_spec [where n = 1 and imread = ?imread and written = "[]"
        and listing = "[''b.png'']" and input_folder = "''in''" and output_folder = "''out''"
        and cast = id and bufs = "buffers_of []", OF one ok]
    by (simp add: file_writes_def endswith_any_def endswith_def lower_def lower_char_def
        path_join_def startswith_def splitext_def rfind_def canonical_faces_def Let_def)
qed

end
